theory Spec2Isabelle
  imports Complex_Main "HOL-Library.AList"
begin

section \<open>Python strings and \<open>int()\<close>\<close>

text \<open>
  A Python \<open>str\<close> is modelled as a \<open>string\<close> whose characters are the code points
  below 256; on that range the definitions below agree with CPython.
  \<open>str.strip()\<close> removes the white-space code points 9-13, 28-32, 133 and 160.
\<close>

definition py_space :: "char \<Rightarrow> bool" where
  "py_space c = (of_char c \<in> {9::nat, 10, 11, 12, 13, 28, 29, 30, 31, 32, 133, 160})"

definition strip :: "string \<Rightarrow> string" where
  "strip s = rev (dropWhile py_space (rev (dropWhile py_space s)))"

definition digit_of :: "char \<Rightarrow> nat option" where
  "digit_of c =
     (let n = (of_char c :: nat) in if 48 \<le> n \<and> n \<le> 57 then Some (n - 48) else None)"

text \<open>
  The digits of a decimal literal after its first digit: single underscores are allowed
  between digits, nowhere else.
\<close>

fun py_digits :: "nat \<Rightarrow> string \<Rightarrow> nat option" where
  "py_digits acc [] = Some acc"
| "py_digits acc (c # cs) =
     (if c = CHR ''_'' then
        (case cs of
           [] \<Rightarrow> None
         | d # ds \<Rightarrow>
             (case digit_of d of None \<Rightarrow> None | Some v \<Rightarrow> py_digits (10 * acc + v) ds))
      else
        (case digit_of c of None \<Rightarrow> None | Some v \<Rightarrow> py_digits (10 * acc + v) cs))"

definition int_max_str_digits :: nat where
  "int_max_str_digits = 4300"

text \<open>
  \<open>int(s)\<close> for a string: \<open>None\<close> stands for the \<open>ValueError\<close>. White space around
  the literal is dropped, one sign is allowed, and a literal of more than
  \<open>int_max_str_digits\<close> digits is refused.
\<close>

definition py_int :: "string \<Rightarrow> int option" where
  "py_int s =
     (let t = strip s;
          neg = (t \<noteq> [] \<and> hd t = CHR ''-'');
          body = (if t \<noteq> [] \<and> (hd t = CHR ''-'' \<or> hd t = CHR ''+'') then tl t else t)
      in case body of
           [] \<Rightarrow> None
         | c # cs \<Rightarrow>
             (case digit_of c of
                None \<Rightarrow> None
              | Some v \<Rightarrow>
                  if length (filter (\<lambda>x. x \<noteq> CHR ''_'') body) > int_max_str_digits then None
                  else map_option (\<lambda>n. if neg then - int n else int n) (py_digits v cs)))"




text \<open>\<open>s.split("/", 1)\<close> for a string that holds a slash: the parts around the first one.\<close>

definition before_slash :: "string \<Rightarrow> string" where
  "before_slash s = takeWhile (\<lambda>c. c \<noteq> CHR ''/'') s"

definition after_slash :: "string \<Rightarrow> string" where
  "after_slash s = tl (dropWhile (\<lambda>c. c \<noteq> CHR ''/'') s)"

section \<open>Track numbers\<close>

text \<open>
  The exceptions the functions below can meet, as values: \<open>int_str\<close> is \<open>int(s)\<close> with
  its \<open>ValueError\<close>.
\<close>

datatype py_exception = ValueError

definition int_str :: "string \<Rightarrow> py_exception + int" where
  "int_str s = (case py_int s of None \<Rightarrow> Inl ValueError | Some n \<Rightarrow> Inr n)"

text \<open>
  \<open>_parse_track\<close>, with \<open>Inl\<close> for an exception that leaves it: both \<open>int()\<close> calls of
  the "N/M" form sit in one \<open>try\<close>, so a failure of either gives \<open>(0, 0)\<close>; the
  \<open>except\<close> clauses are the \<open>Inl\<close> cases.
\<close>

definition parse_track :: "string \<Rightarrow> py_exception + (int \<times> int)" where
  "parse_track track_str =
     (let track_str = strip track_str in
      if track_str = [] then Inr (0, 0)
      else if CHR ''/'' \<in> set track_str then
        (case int_str (strip (before_slash track_str)) of
           Inl e \<Rightarrow> Inr (0, 0)
         | Inr a \<Rightarrow>
             (case int_str (strip (after_slash track_str)) of
                Inl e \<Rightarrow> Inr (0, 0)
              | Inr b \<Rightarrow> Inr (a, b)))
      else
        (case int_str track_str of Inl e \<Rightarrow> Inr (0, 0) | Inr a \<Rightarrow> Inr (a, 0)))"

section \<open>Paths, results and the tag library's surroundings\<close>

text \<open>
  A \<open>pathlib.Path\<close> of a file, already split by \<open>pathlib\<close>: the directory it lies in
  and its final component.
\<close>

record path =
  parent :: string
  name :: string

text \<open>
  The second component of the \<open>(ok, msg)\<close> results. The texts of the source are
  Swedish sentences, some with the text of the exception caught appended; the model
  keeps which sentence it is.
  \<^item> \<open>OK\<close>: "OK"
  \<^item> \<open>MutagenMissing\<close>: "Mutagen saknas (pip install mutagen)."
  \<^item> \<open>MP3WriteFailed\<close>: "Kunde inte skriva MP3-taggar: ..."
  \<^item> \<open>M4AWriteFailed\<close>: "Kunde inte skriva M4A-taggar: ..."
  \<^item> \<open>FfmpegMissing\<close>: "ffmpeg saknas i appen (tools/ffmpeg)."
  \<^item> \<open>SpawnFailed\<close>: "Kunde inte starta ffmpeg: ..."
  \<^item> \<open>StderrTail t\<close>: the retained tail \<open>t\<close> of the encoder's standard error
  \<^item> \<open>NoStderr\<close>: "ffmpeg misslyckades (ingen stderr)."
  \<^item> \<open>ReplaceFailed\<close>: "Kunde inte ersatta originalfilen: ..."
  \<^item> \<open>UnknownAudioFormat ext\<close>: "Okant ljudformat: ext"
\<close>

datatype message =
    OK
  | MutagenMissing
  | MP3WriteFailed
  | M4AWriteFailed
  | FfmpegMissing
  | SpawnFailed
  | StderrTail string
  | NoStderr
  | ReplaceFailed
  | UnknownAudioFormat string

text \<open>
  \<open>fields.get(k, "") or ""\<close>: a key that is missing and a value that is \<open>None\<close> or
  empty all read as the empty string.
\<close>

type_synonym fields = "string \<rightharpoonup> string"

definition field :: "fields \<Rightarrow> string \<Rightarrow> string" where
  "field flds k = (case flds k of None \<Rightarrow> [] | Some v \<Rightarrow> v)"

text \<open>
  The cover action is a dictionary with the keys \<open>action\<close>, \<open>bytes\<close> and \<open>mime\<close>; the
  source reads \<open>bytes\<close> and \<open>mime\<close> only through their truth value, so a missing entry
  is the empty string here.
\<close>

record cover_dict =
  action :: string
  img_bytes :: string
  mime :: string

text \<open>What the read functions return; the empty dictionary \<open>{}\<close> is \<open>None\<close>.\<close>

record tagset =
  title :: string
  artist :: string
  album :: string
  track :: string
  year :: string
  genre :: string
  comment :: string
  has_cover :: bool
  cover_bytes :: "string option"
  cover_mime :: "string option"

section \<open>M4A: atom metadata\<close>

datatype image_format = FORMAT_JPEG | FORMAT_PNG

record mp4cover =
  cover_data :: string
  imageformat :: image_format

text \<open>
  \<open>MP4.tags\<close> is a dictionary from atom names to lists of values, and the tag library
  types the values by the atom's name: text atoms hold strings, \<open>trkn\<close> pairs of
  integers, \<open>covr\<close> covers. The model has one component for each kind; \<open>other_atoms\<close>
  are the atoms of every other kind, which the source never names.
\<close>

record mp4tags =
  text_atoms :: "string \<rightharpoonup> string list"
  trkn :: "(int \<times> int) list option"
  covr :: "mp4cover list option"
  other_atoms :: "string \<rightharpoonup> string"

definition no_mp4tags :: mp4tags where
  "no_mp4tags = \<lparr>text_atoms = Map.empty, trkn = None, covr = None, other_atoms = Map.empty\<rparr>"

record mp4file =
  mp4_tags :: "mp4tags option"
  mp4_media :: string

type_synonym mp4store = "path \<rightharpoonup> mp4file"

text \<open>
  What the functions cannot decide themselves: whether the tag library was imported,
  whether opening a file raises for a reason of the file system or the file's bytes,
  and whether saving raises (the library refuses, among others, a track pair outside
  the 16-bit range).
\<close>

record mp4_env =
  mp4_mutagen_ok :: bool
  mp4_open_fails :: "path \<Rightarrow> bool"
  mp4_save_fails :: "path \<Rightarrow> mp4tags \<Rightarrow> bool"

text \<open>The atom names: the first character of the text atoms is the copyright sign.\<close>

definition k_nam :: string where "k_nam = CHR 0xA9 # ''nam''"
definition k_ART :: string where "k_ART = CHR 0xA9 # ''ART''"
definition k_alb :: string where "k_alb = CHR 0xA9 # ''alb''"
definition k_day :: string where "k_day = CHR 0xA9 # ''day''"
definition k_gen :: string where "k_gen = CHR 0xA9 # ''gen''"
definition k_cmt :: string where "k_cmt = CHR 0xA9 # ''cmt''"

definition put_m4a :: "string \<Rightarrow> string \<Rightarrow> mp4tags \<Rightarrow> mp4tags" where
  "put_m4a key val t =
     (let val = strip val in
      if val \<noteq> [] then t\<lparr>text_atoms := (text_atoms t)(key \<mapsto> [val])\<rparr>
      else t\<lparr>text_atoms := (text_atoms t)(key := None)\<rparr>)"

text \<open>
  The track part of \<open>tags_write_m4a\<close>; an exception of \<open>_parse_track\<close> would leave the
  function's \<open>try\<close> block.
\<close>

definition write_track_m4a :: "fields \<Rightarrow> mp4tags \<Rightarrow> py_exception + mp4tags" where
  "write_track_m4a flds t =
     (let tr = strip (field flds ''track'') in
      if tr \<noteq> [] then
        (case parse_track tr of
           Inl e \<Rightarrow> Inl e
         | Inr (tn, tt) \<Rightarrow> Inr (if tn \<noteq> 0 then t\<lparr>trkn := Some [(tn, tt)]\<rparr> else t))
      else Inr (t\<lparr>trkn := None\<rparr>))"

definition write_cover_m4a :: "cover_dict option \<Rightarrow> mp4tags \<Rightarrow> mp4tags" where
  "write_cover_m4a cover t =
     (case cover of
        None \<Rightarrow> t
      | Some c \<Rightarrow>
          if action c = ''remove'' then t\<lparr>covr := None\<rparr>
          else if action c = ''set'' then
            (let mime = (if mime c = [] then ''image/jpeg'' else mime c) in
             if img_bytes c \<noteq> [] then
               (if mime = ''image/png''
                then t\<lparr>covr := Some [\<lparr>cover_data = img_bytes c, imageformat = FORMAT_PNG\<rparr>]\<rparr>
                else t\<lparr>covr := Some [\<lparr>cover_data = img_bytes c, imageformat = FORMAT_JPEG\<rparr>]\<rparr>)
             else t)
          else t)"

definition edit_m4a :: "fields \<Rightarrow> cover_dict option \<Rightarrow> mp4tags \<Rightarrow> py_exception + mp4tags" where
  "edit_m4a flds cover t =
     (case write_track_m4a flds
             (put_m4a k_cmt (field flds ''comment'')
               (put_m4a k_gen (field flds ''genre'')
                 (put_m4a k_day (field flds ''year'')
                   (put_m4a k_alb (field flds ''album'')
                     (put_m4a k_ART (field flds ''artist'')
                       (put_m4a k_nam (field flds ''title'') t)))))) of
        Inl e \<Rightarrow> Inl e
      | Inr t' \<Rightarrow> Inr (write_cover_m4a cover t'))"

text \<open>
  \<open>tags_write_m4a\<close>: every exception between opening and saving is caught and becomes
  a failure result; the file is rewritten only by a \<open>save\<close> that returns.
\<close>

definition tags_write_m4a ::
  "mp4_env \<Rightarrow> path \<Rightarrow> fields \<Rightarrow> cover_dict option \<Rightarrow> mp4store \<Rightarrow> (bool \<times> message) \<times> mp4store"
where
  "tags_write_m4a env p flds cover store =
     (if \<not> mp4_mutagen_ok env then ((False, MutagenMissing), store)
      else if mp4_open_fails env p then ((False, M4AWriteFailed), store)
      else
        (case store p of
           None \<Rightarrow> ((False, M4AWriteFailed), store)
         | Some f \<Rightarrow>
             (case edit_m4a flds cover
                     (case mp4_tags f of None \<Rightarrow> no_mp4tags | Some t0 \<Rightarrow> t0) of
                Inl e \<Rightarrow> ((False, M4AWriteFailed), store)
              | Inr t \<Rightarrow>
                  if mp4_save_fails env p t then ((False, M4AWriteFailed), store)
                  else ((True, OK), store(p \<mapsto> f\<lparr>mp4_tags := Some t\<rparr>)))))"




section \<open>MP3: ID3v2 frames\<close>

text \<open>
  The frames the source builds, as the tag library's classes: a text frame (with its
  four-letter identifier), a comment and an attached picture, each with the keyword
  arguments of its constructor; \<open>OtherFrame\<close> is a frame of any other class, with the
  key the library files it under.
\<close>

datatype frame =
    TextFrame (frame_id: string) (encoding: nat) (frame_text: "string list")
  | COMM (encoding: nat) (lang: string) (desc: string) (frame_text: "string list")
  | APIC (encoding: nat) (apic_mime: string) (pic_type: nat) (desc: string) (apic_data: string)
  | OtherFrame (hash_key: string) (payload: string)

fun HashKey :: "frame \<Rightarrow> string" where
  "HashKey (TextFrame fid _ _) = fid"
| "HashKey (COMM _ l d _) = ''COMM:'' @ d @ '':'' @ l"
| "HashKey (APIC _ _ _ d _) = ''APIC:'' @ d"
| "HashKey (OtherFrame k _) = k"

text \<open>
  An \<open>ID3\<close> object is a dictionary from hash keys to frames, in the order of insertion.
  \<open>getall\<close>, \<open>delall\<close>, \<open>setall\<close> and \<open>add\<close> are the library's methods: a key that is
  present names one frame, otherwise it names every frame whose key starts with the
  key and a colon.
\<close>

type_synonym id3 = "(string \<times> frame) list"

definition startswith :: "string \<Rightarrow> string \<Rightarrow> bool" where
  "startswith s pre = (take (length pre) s = pre)"

definition getall :: "string \<Rightarrow> id3 \<Rightarrow> frame list" where
  "getall key tags =
     (case map_of tags key of
        Some v \<Rightarrow> [v]
      | None \<Rightarrow> map snd (filter (\<lambda>(s, v). startswith s (key @ '':'')) tags))"

definition delall :: "string \<Rightarrow> id3 \<Rightarrow> id3" where
  "delall key tags =
     (case map_of tags key of
        Some v \<Rightarrow> AList.delete key tags
      | None \<Rightarrow> filter (\<lambda>(s, v). \<not> startswith s (key @ '':'')) tags)"

definition add :: "frame \<Rightarrow> id3 \<Rightarrow> id3" where
  "add fr tags = AList.update (HashKey fr) fr tags"

definition setall :: "string \<Rightarrow> frame list \<Rightarrow> id3 \<Rightarrow> id3" where
  "setall key values tags = foldl (\<lambda>t fr. AList.update (HashKey fr) fr t) (delall key tags) values"

text \<open>
  A stored file: \<open>id3_tag\<close> is its tag as \<open>ID3(path)\<close> presents it once it has loaded
  the file (the library translates what it reads), \<open>None\<close> when the file has no ID3
  header.
\<close>

record mp3file =
  id3_tag :: "id3 option"
  mp3_audio :: string

type_synonym mp3store = "path \<rightharpoonup> mp3file"

text \<open>
  What the functions cannot decide themselves: whether the tag library was imported,
  whether opening a file raises something other than \<open>ID3NoHeaderError\<close>, whether
  saving raises, whether a save of no frames at all removes the tag from the file (the
  library's versions differ), and, with \<open>id3_presented\<close>, the texts the library presents
  when the file is loaded again for a frame of the given identifier that was built from
  the given text and saved. For plain text that is the text itself; the library splits
  a text at a NUL character, gives a time stamp (the year frame \<open>TDRC\<close>) in its own
  format and translates a genre (\<open>TCON\<close>) written as a number into its name.
\<close>

record id3_env =
  id3_mutagen_ok :: bool
  id3_open_fails :: "path \<Rightarrow> bool"
  id3_save_fails :: "path \<Rightarrow> id3 \<Rightarrow> bool"
  id3_drops_empty :: bool
  id3_presented :: "string \<Rightarrow> string \<Rightarrow> string list"

definition put_mp3 :: "string \<Rightarrow> frame \<Rightarrow> string \<Rightarrow> id3 \<Rightarrow> id3" where
  "put_mp3 fid frame_obj val tags =
     (let val = strip val in
      if val \<noteq> [] then setall fid [frame_obj] tags else delall fid tags)"

definition write_comment_mp3 :: "id3_env \<Rightarrow> fields \<Rightarrow> id3 \<Rightarrow> id3" where
  "write_comment_mp3 env flds tags =
     (let comm_val = strip (field flds ''comment'') in
      if comm_val \<noteq> [] then
        setall ''COMM'' [COMM 3 ''eng'' [] (id3_presented env ''COMM'' comm_val)] tags
      else delall ''COMM'' tags)"

definition write_cover_mp3 :: "cover_dict option \<Rightarrow> id3 \<Rightarrow> id3" where
  "write_cover_mp3 cover tags =
     (case cover of
        None \<Rightarrow> tags
      | Some c \<Rightarrow>
          if action c = ''remove'' then delall ''APIC'' tags
          else if action c = ''set'' then
            (let mime = (if mime c = [] then ''image/jpeg'' else mime c) in
             if img_bytes c \<noteq> [] then add (APIC 3 mime 3 ''Cover'' (img_bytes c)) (delall ''APIC'' tags)
             else tags)
          else tags)"

text \<open>
  The edits of \<open>tags_write_mp3\<close>. A frame the source builds from a text is recorded
  with the texts the library presents for it after the save, since the store holds
  tags as they are loaded.
\<close>

definition edit_mp3 :: "id3_env \<Rightarrow> fields \<Rightarrow> cover_dict option \<Rightarrow> id3 \<Rightarrow> id3" where
  "edit_mp3 env flds cover tags =
     write_cover_mp3 cover
       (write_comment_mp3 env flds
         (put_mp3 ''TCON'' (TextFrame ''TCON'' 3 (id3_presented env ''TCON'' (strip (field flds ''genre''))))
                  (field flds ''genre'')
           (put_mp3 ''TDRC'' (TextFrame ''TDRC'' 3 (id3_presented env ''TDRC'' (strip (field flds ''year''))))
                    (field flds ''year'')
             (put_mp3 ''TRCK'' (TextFrame ''TRCK'' 3 (id3_presented env ''TRCK'' (strip (field flds ''track''))))
                      (field flds ''track'')
               (put_mp3 ''TALB'' (TextFrame ''TALB'' 3 (id3_presented env ''TALB'' (strip (field flds ''album''))))
                        (field flds ''album'')
                 (put_mp3 ''TPE1'' (TextFrame ''TPE1'' 3 (id3_presented env ''TPE1'' (strip (field flds ''artist''))))
                          (field flds ''artist'')
                   (put_mp3 ''TIT2'' (TextFrame ''TIT2'' 3 (id3_presented env ''TIT2'' (strip (field flds ''title''))))
                            (field flds ''title'') tags)))))))"

text \<open>
  \<open>tags_write_mp3\<close>: a file without an ID3 header starts from an empty tag; any other
  exception, from opening to saving, is caught and becomes a failure result.
\<close>

definition tags_write_mp3 ::
  "id3_env \<Rightarrow> path \<Rightarrow> fields \<Rightarrow> cover_dict option \<Rightarrow> mp3store \<Rightarrow> (bool \<times> message) \<times> mp3store"
where
  "tags_write_mp3 env p flds cover store =
     (if \<not> id3_mutagen_ok env then ((False, MutagenMissing), store)
      else if id3_open_fails env p then ((False, MP3WriteFailed), store)
      else
        (case store p of
           None \<Rightarrow> ((False, MP3WriteFailed), store)
         | Some f \<Rightarrow>
             (let tags = edit_mp3 env flds cover (case id3_tag f of None \<Rightarrow> [] | Some t \<Rightarrow> t)
              in if id3_save_fails env p tags then ((False, MP3WriteFailed), store)
                 else ((True, OK),
                       store(p \<mapsto> f\<lparr>id3_tag := (if tags = [] \<and> id3_drops_empty env
                                                   then None else Some tags)\<rparr>)))))"





section \<open>The file system, the encoder process and the clock\<close>

text \<open>
  The files of the machine: a path holds a file's bytes or nothing. An encoder that was
  started either could not be spawned or has exited: then it has written its lines on
  standard output, the reader thread has gathered the lines of its standard error, it
  has a return code, and it leaves the files as it made them.
\<close>

type_synonym fs = "path \<rightharpoonup> string"

datatype process =
    SpawnError
  | Exited (out_lines: "string list") (err_lines: "string list") (returncode: int) (files_after: fs)

datatype oserror = FileNotFoundError | FileExistsError | PermissionError

datatype syscall = Popen "string list" | Exists path | Unlink path | Rename path path

text \<open>
  A step of the trace: the call made, whether it raised, and the files once it has
  returned.
\<close>

type_synonym step = "syscall \<times> bool \<times> fs"

record world =
  disk :: fs
  trace :: "step list"

text \<open>
  The surroundings of a run: what a spawned command does, which calls the operating
  system refuses for reasons outside the model (permissions, locks), the readings of
  \<open>time.time()\<close> in the order they are taken, and whether \<open>rename\<close> refuses an
  existing target (Windows) or replaces it (POSIX).
\<close>

record os_env =
  popen :: "string list \<Rightarrow> fs \<Rightarrow> process"
  refused :: "syscall \<Rightarrow> fs \<Rightarrow> bool"
  clock :: "nat \<Rightarrow> rat"
  windows :: bool

definition logged :: "syscall \<Rightarrow> bool \<Rightarrow> fs \<Rightarrow> world \<Rightarrow> world" where
  "logged c r f w = \<lparr>disk = f, trace = trace w @ [(c, r, f)]\<rparr>"

definition sys_exists :: "os_env \<Rightarrow> path \<Rightarrow> world \<Rightarrow> (oserror + bool) \<times> world" where
  "sys_exists env p w =
     (if refused env (Exists p) (disk w) then (Inl PermissionError, logged (Exists p) True (disk w) w)
      else (Inr (disk w p \<noteq> None), logged (Exists p) False (disk w) w))"

definition sys_unlink :: "os_env \<Rightarrow> bool \<Rightarrow> path \<Rightarrow> world \<Rightarrow> oserror option \<times> world" where
  "sys_unlink env missing_ok p w =
     (if refused env (Unlink p) (disk w) then (Some PermissionError, logged (Unlink p) True (disk w) w)
      else if disk w p = None then
        (if missing_ok then (None, logged (Unlink p) False (disk w) w)
         else (Some FileNotFoundError, logged (Unlink p) True (disk w) w))
      else (None, logged (Unlink p) False ((disk w)(p := None)) w))"

definition sys_rename :: "os_env \<Rightarrow> path \<Rightarrow> path \<Rightarrow> world \<Rightarrow> oserror option \<times> world" where
  "sys_rename env a b w =
     (if refused env (Rename a b) (disk w) then
        (Some PermissionError, logged (Rename a b) True (disk w) w)
      else
        (case disk w a of
           None \<Rightarrow> (Some FileNotFoundError, logged (Rename a b) True (disk w) w)
         | Some bytes \<Rightarrow>
             if windows env \<and> disk w b \<noteq> None then
               (Some FileExistsError, logged (Rename a b) True (disk w) w)
             else (None, logged (Rename a b) False ((disk w)(a := None, b \<mapsto> bytes)) w)))"

section \<open>The progress stream\<close>

text \<open>
  An event is a call of the progress callback: the percentage (or \<open>None\<close>) and the
  label, "Bearbetar..." while running and "Klar" at the end. A callback is modelled by
  the events on which it raises. Percentages are exact rationals here, where the
  source computes them in double precision.
\<close>

datatype phase = Running | Finished

type_synonym event = "rat option \<times> phase"

type_synonym callback = "event \<Rightarrow> bool"

record pstate =
  total_ms :: "int option"
  last_update :: rat
  ticks :: nat
  delivered :: "event list"
  aborted :: bool

text \<open>
  \<open>out_ms / total_ms\<close> raises \<open>OverflowError\<close> when the quotient is too large for a
  double; the \<open>except\<close> around it leaves the percentage \<open>None\<close>.
\<close>

definition float_overflow :: "rat \<Rightarrow> bool" where
  "float_overflow q = (\<bar>q\<bar> \<ge> 2 ^ 1024 - 2 ^ 970)"

definition percent :: "int \<Rightarrow> int \<Rightarrow> rat option" where
  "percent out_ms tot =
     (let q = (of_int out_ms :: rat) / of_int tot in
      if float_overflow q then None else Some (max 0 (min 100 (q * 100))))"

definition deliver :: "callback \<Rightarrow> event \<Rightarrow> pstate \<Rightarrow> pstate" where
  "deliver cb ev st = st\<lparr>delivered := delivered st @ [ev], aborted := cb ev\<rparr>"

definition on_out_time :: "os_env \<Rightarrow> callback option \<Rightarrow> string \<Rightarrow> pstate \<Rightarrow> pstate" where
  "on_out_time env progress_cb v st =
     (let pct = (case total_ms st of
                   None \<Rightarrow> None
                 | Some t \<Rightarrow>
                     if t \<noteq> 0 \<and> t > 0 then
                       (case py_int v of None \<Rightarrow> None | Some out_ms \<Rightarrow> percent out_ms t)
                     else None)
      in case progress_cb of
           None \<Rightarrow> st
         | Some cb \<Rightarrow>
             (let now = clock env (ticks st);
                  st1 = st\<lparr>ticks := ticks st + 1\<rparr>
              in if now - last_update st > 12 / 100 then
                   (let st2 = deliver cb (pct, Running) st1 in
                    if aborted st2 then st2
                    else st2\<lparr>last_update := clock env (ticks st2), ticks := ticks st2 + 1\<rparr>)
                 else st1))"

definition on_progress_end :: "callback option \<Rightarrow> pstate \<Rightarrow> pstate" where
  "on_progress_end progress_cb st =
     (case progress_cb of None \<Rightarrow> st | Some cb \<Rightarrow> deliver cb (Some 100, Finished) st)"

definition key_of :: "string \<Rightarrow> string" where
  "key_of line = strip (takeWhile (\<lambda>c. c \<noteq> CHR ''='') line)"

definition value_of :: "string \<Rightarrow> string" where
  "value_of line = strip (tl (dropWhile (\<lambda>c. c \<noteq> CHR ''='') line))"

text \<open>
  The body of the loop over standard output. The three tests on the key exclude each
  other, so at most one of them acts on a line.
\<close>

definition process_line :: "os_env \<Rightarrow> callback option \<Rightarrow> pstate \<Rightarrow> string \<Rightarrow> pstate" where
  "process_line env progress_cb st raw =
     (let line = strip raw in
      if line = [] \<or> CHR ''='' \<notin> set line then st
      else
        (let k = key_of line;
             v = value_of line
         in if k = ''duration_ms'' then st\<lparr>total_ms := py_int v\<rparr>
            else if k = ''out_time_ms'' then on_out_time env progress_cb v st
            else if k = ''progress'' \<and> v = ''end'' then on_progress_end progress_cb st
            else st))"

text \<open>The loop: an exception of the callback leaves it, and is swallowed.\<close>

fun feed :: "os_env \<Rightarrow> callback option \<Rightarrow> pstate \<Rightarrow> string list \<Rightarrow> pstate" where
  "feed env progress_cb st [] = st"
| "feed env progress_cb st (raw # rest) =
     (let st' = process_line env progress_cb st raw in
      if aborted st' then st' else feed env progress_cb st' rest)"

definition start_state :: "os_env \<Rightarrow> pstate" where
  "start_state env =
     \<lparr>total_ms = None, last_update = clock env 0, ticks = 1, delivered = [], aborted = False\<rparr>"

definition stderr_tail :: "string list \<Rightarrow> message" where
  "stderr_tail stderr_acc =
     (let tail = strip (concat (drop (length stderr_acc - 30) stderr_acc)) in
      if tail \<noteq> [] then StderrTail tail else NoStderr)"

definition run_ffmpeg_with_progress ::
  "os_env \<Rightarrow> string list \<Rightarrow> callback option \<Rightarrow> world \<Rightarrow> (bool \<times> message) \<times> event list \<times> world"
where
  "run_ffmpeg_with_progress env cmd progress_cb w =
     (case popen env cmd (disk w) of
        SpawnError \<Rightarrow> ((False, SpawnFailed), [], logged (Popen cmd) True (disk w) w)
      | Exited out err rc f \<Rightarrow>
          (let st = feed env progress_cb (start_state env) out
           in (if rc = 0 then (True, OK) else (False, stderr_tail err),
               delivered st,
               logged (Popen cmd) False f w)))"

section \<open>Genre rewrite in place and export\<close>

text \<open>\<open>Path.suffix\<close>, \<open>Path.stem\<close>, \<open>Path.with_name\<close> and \<open>str(path)\<close>.\<close>

definition rfind_dot :: "string \<Rightarrow> nat option" where
  "rfind_dot s =
     (if CHR ''.'' \<in> set s
      then Some (length s - 1 - length (takeWhile (\<lambda>c. c \<noteq> CHR ''.'') (rev s)))
      else None)"

definition suffix :: "path \<Rightarrow> string" where
  "suffix p =
     (case rfind_dot (name p) of
        None \<Rightarrow> []
      | Some i \<Rightarrow> if 0 < i \<and> i < length (name p) - 1 then drop i (name p) else [])"

definition stem :: "path \<Rightarrow> string" where
  "stem p =
     (case rfind_dot (name p) of
        None \<Rightarrow> name p
      | Some i \<Rightarrow> if 0 < i \<and> i < length (name p) - 1 then take i (name p) else name p)"

definition with_name :: "path \<Rightarrow> string \<Rightarrow> path" where
  "with_name p n = p\<lparr>name := n\<rparr>"

definition path_str :: "path \<Rightarrow> string" where
  "path_str p =
     (if parent p = [] \<or> parent p = ''.'' then name p
      else if last (parent p) = CHR ''/'' then parent p @ name p
      else parent p @ ''/'' @ name p)"

definition lower_char :: "char \<Rightarrow> char" where
  "lower_char c =
     (let n = (of_char c :: nat) in
      if (65 \<le> n \<and> n \<le> 90) \<or> (192 \<le> n \<and> n \<le> 222 \<and> n \<noteq> 215) then char_of (n + 32) else c)"

definition lower :: "string \<Rightarrow> string" where
  "lower s = map lower_char s"

definition tmp_path :: "path \<Rightarrow> path" where
  "tmp_path src = with_name src (stem src @ ''.__tmp__'' @ suffix src)"

definition backup_path :: "path \<Rightarrow> path" where
  "backup_path src = with_name src (stem src @ ''.__bak__'' @ suffix src)"

definition genre_cmd :: "string \<Rightarrow> path \<Rightarrow> string \<Rightarrow> string list" where
  "genre_cmd ffmpeg_path src genre_str =
     [ffmpeg_path, ''-y'', ''-i'', path_str src, ''-map'', ''0'', ''-c'', ''copy'',
      ''-metadata'', ''genre='' @ genre_str,
      ''-progress'', ''pipe:1'', ''-nostats'', path_str (tmp_path src)]"

text \<open>The clean-up after a failed encoder run; its exceptions are swallowed.\<close>

definition cleanup_tmp :: "os_env \<Rightarrow> path \<Rightarrow> world \<Rightarrow> world" where
  "cleanup_tmp env tmp w =
     (case sys_exists env tmp w of
        (Inr True, w1) \<Rightarrow> snd (sys_unlink env False tmp w1)
      | (_, w1) \<Rightarrow> w1)"

text \<open>
  The \<open>try\<close> block that swaps the new file in: the first call that raises ends it, and
  the \<open>except\<close> clause only builds the failure result.
\<close>

definition replace_original :: "os_env \<Rightarrow> path \<Rightarrow> path \<Rightarrow> world \<Rightarrow> oserror option \<times> world" where
  "replace_original env src tmp w =
     (let backup = backup_path src in
      case sys_exists env backup w of
        (Inl e, w1) \<Rightarrow> (Some e, w1)
      | (Inr there, w1) \<Rightarrow>
          (case (if there then sys_unlink env False backup w1 else (None, w1)) of
             (Some e, w2) \<Rightarrow> (Some e, w2)
           | (None, w2) \<Rightarrow>
               (case sys_rename env src backup w2 of
                  (Some e, w3) \<Rightarrow> (Some e, w3)
                | (None, w3) \<Rightarrow>
                    (case sys_rename env tmp src w3 of
                       (Some e, w4) \<Rightarrow> (Some e, w4)
                     | (None, w4) \<Rightarrow> sys_unlink env True backup w4))))"

definition ffmpeg_write_genre_inplace ::
  "os_env \<Rightarrow> string option \<Rightarrow> path \<Rightarrow> string \<Rightarrow> callback option \<Rightarrow> world
     \<Rightarrow> (bool \<times> message) \<times> event list \<times> world"
where
  "ffmpeg_write_genre_inplace env ffmpeg_path src genre_str progress_cb w =
     (case ffmpeg_path of
        None \<Rightarrow> ((False, FfmpegMissing), [], w)
      | Some exe \<Rightarrow>
          if exe = [] then ((False, FfmpegMissing), [], w)
          else
            (let tmp = tmp_path src in
             case run_ffmpeg_with_progress env (genre_cmd exe src genre_str) progress_cb w of
               ((ok, msg), evs, w1) \<Rightarrow>
                 if \<not> ok then ((False, msg), evs, cleanup_tmp env tmp w1)
                 else
                   (case replace_original env src tmp w1 of
                      (Some e, w2) \<Rightarrow> ((False, ReplaceFailed), evs, w2)
                    | (None, w2) \<Rightarrow> ((True, OK), evs, w2))))"

definition video_cmd :: "string \<Rightarrow> path \<Rightarrow> path \<Rightarrow> string list" where
  "video_cmd ffmpeg_path src dst =
     [ffmpeg_path, ''-y'', ''-i'', path_str src, ''-map'', ''0:v:0'', ''-map'', ''0:a?'',
      ''-c:v'', ''libx264'', ''-preset'', ''veryfast'', ''-crf'', ''20'',
      ''-c:a'', ''aac'', ''-b:a'', ''192k'',
      ''-progress'', ''pipe:1'', ''-nostats'', path_str dst]"

definition ffmpeg_export ::
  "os_env \<Rightarrow> string option \<Rightarrow> path \<Rightarrow> path \<Rightarrow> string \<Rightarrow> callback option \<Rightarrow> world
     \<Rightarrow> (bool \<times> message) \<times> event list \<times> world"
where
  "ffmpeg_export env ffmpeg_path src dst kind progress_cb w =
     (case ffmpeg_path of
        None \<Rightarrow> ((False, FfmpegMissing), [], w)
      | Some exe \<Rightarrow>
          if exe = [] then ((False, FfmpegMissing), [], w)
          else
            (let ext = lower (suffix dst) in
             if kind = ''video'' then
               run_ffmpeg_with_progress env (video_cmd exe src dst) progress_cb w
             else if ext = ''.m4a'' then
               run_ffmpeg_with_progress env
                 [exe, ''-y'', ''-i'', path_str src, ''-vn'', ''-c:a'', ''aac'', ''-b:a'', ''192k'',
                  ''-progress'', ''pipe:1'', ''-nostats'', path_str dst] progress_cb w
             else if ext = ''.mp3'' then
               run_ffmpeg_with_progress env
                 [exe, ''-y'', ''-i'', path_str src, ''-vn'', ''-c:a'', ''libmp3lame'', ''-q:a'', ''2'',
                  ''-progress'', ''pipe:1'', ''-nostats'', path_str dst] progress_cb w
             else if ext = ''.ogg'' then
               run_ffmpeg_with_progress env
                 [exe, ''-y'', ''-i'', path_str src, ''-vn'', ''-c:a'', ''libvorbis'', ''-q:a'', ''6'',
                  ''-progress'', ''pipe:1'', ''-nostats'', path_str dst] progress_cb w
             else ((False, UnknownAudioFormat ext), [], w)))"

section \<open>Notions used in the statements\<close>

text \<open>
  A track string is well formed when it has one of the forms "N" and "N/M": without a
  slash it is an integer literal, with a slash the parts around the first slash are.
\<close>

definition well_formed_track :: "string \<Rightarrow> bool" where
  "well_formed_track s =
     (let t = strip s in
      if CHR ''/'' \<in> set t
      then py_int (strip (before_slash t)) \<noteq> None \<and> py_int (strip (after_slash t)) \<noteq> None
      else py_int t \<noteq> None)"

text \<open>The \<open>trkn\<close> atom a stored file has, if any.\<close>

definition trkn_of :: "mp4store \<Rightarrow> path \<Rightarrow> (int \<times> int) list option" where
  "trkn_of store p =
     (case store p of
        None \<Rightarrow> None
      | Some f \<Rightarrow> (case mp4_tags f of None \<Rightarrow> None | Some t \<Rightarrow> trkn t))"

text \<open>
  For the proofs: the tags that the track part and all the edits of \<open>tags_write_m4a\<close>
  give when no exception leaves them.
\<close>

definition tracked :: "fields \<Rightarrow> mp4tags \<Rightarrow> mp4tags" where
  "tracked flds t =
     (let tr = strip (field flds ''track'') in
      if tr \<noteq> [] then
        (case parse_track tr of
           Inl e \<Rightarrow> t
         | Inr (tn, tt) \<Rightarrow> if tn \<noteq> 0 then t\<lparr>trkn := Some [(tn, tt)]\<rparr> else t)
      else t\<lparr>trkn := None\<rparr>)"

definition edited_m4a :: "fields \<Rightarrow> cover_dict option \<Rightarrow> mp4tags \<Rightarrow> mp4tags" where
  "edited_m4a flds cover t =
     write_cover_m4a cover
       (tracked flds
         (put_m4a k_cmt (field flds ''comment'')
           (put_m4a k_gen (field flds ''genre'')
             (put_m4a k_day (field flds ''year'')
               (put_m4a k_alb (field flds ''album'')
                 (put_m4a k_ART (field flds ''artist'')
                   (put_m4a k_nam (field flds ''title'') t)))))))"

text \<open>Concrete surroundings for the examples: nothing is refused and nothing fails.\<close>

definition quiet_mp4_env :: mp4_env where
  "quiet_mp4_env =
     \<lparr>mp4_mutagen_ok = True, mp4_open_fails = (\<lambda>p. False), mp4_save_fails = (\<lambda>p t. False)\<rparr>"

definition song_m4a :: path where
  "song_m4a = \<lparr>parent = ''/music'', name = ''song.m4a''\<rparr>"

definition track3_store :: mp4store where
  "track3_store =
     [song_m4a \<mapsto> \<lparr>mp4_tags = Some (no_mp4tags\<lparr>trkn := Some [(3, 0)]\<rparr>), mp4_media = ''mdat''\<rparr>]"

text \<open>
  A key belongs to a frame identifier when it is the identifier or extends it by a colon;
  \<open>frames_outside\<close> are the entries, in their order, whose keys belong to none of the
  identifiers given.
\<close>

definition owns :: "string \<Rightarrow> string \<Rightarrow> bool" where
  "owns fid k = (k = fid \<or> startswith k (fid @ '':''))"

definition frames_outside :: "string list \<Rightarrow> id3 \<Rightarrow> id3" where
  "frames_outside fids tags = filter (\<lambda>(k, fr). \<forall>fid \<in> set fids. \<not> owns fid k) tags"

definition written_ids :: "string list" where
  "written_ids = [''TIT2'', ''TPE1'', ''TALB'', ''TRCK'', ''TDRC'', ''TCON'', ''COMM'']"

definition frames_of :: "mp3store \<Rightarrow> path \<Rightarrow> id3" where
  "frames_of store p =
     (case store p of
        None \<Rightarrow> []
      | Some f \<Rightarrow> (case id3_tag f of None \<Rightarrow> [] | Some t \<Rightarrow> t))"

text \<open>
  Concrete inputs for the MP3 examples. The library of the examples presents a text as
  it was written, but the genre 17 as Rock.
\<close>

definition quiet_id3_env :: id3_env where
  "quiet_id3_env =
     \<lparr>id3_mutagen_ok = True, id3_open_fails = (\<lambda>p. False), id3_save_fails = (\<lambda>p t. False),
      id3_drops_empty = False,
      id3_presented = (\<lambda>fid s. if fid = ''TCON'' \<and> s = ''17'' then [''Rock''] else [s])\<rparr>"

definition song_mp3 :: path where
  "song_mp3 = \<lparr>parent = ''/music'', name = ''song.mp3''\<rparr>"

definition tagged_store :: mp3store where
  "tagged_store =
     [song_mp3 \<mapsto>
        \<lparr>id3_tag = Some [(''TIT2'', TextFrame ''TIT2'' 3 [''Old'']),
                         (''TXXX:mood'', OtherFrame ''TXXX:mood'' ''calm''),
                         (''APIC:Cover'', APIC 3 ''image/png'' 3 ''Cover'' ''PNG'')],
         mp3_audio = ''mpeg''\<rparr>]"






text \<open>
  Concrete surroundings for the encoder examples: a video file, an encoder that reports
  its progress, exits with code 0 and leaves its output at the temporary path, an
  operating system that refuses nothing, and a clock that advances one second with
  every reading.
\<close>

definition clip :: path where
  "clip = \<lparr>parent = ''/videos'', name = ''clip.mp4''\<rparr>"

definition good_encoder :: "string list \<Rightarrow> fs \<Rightarrow> process" where
  "good_encoder cmd f =
     Exited [''duration_ms=10000'', ''out_time_ms=2500'', ''out_time_ms=7500'', ''progress=end'']
       [] 0 (f(tmp_path clip \<mapsto> ''new bytes''))"

definition calm_env :: os_env where
  "calm_env = \<lparr>popen = good_encoder, refused = (\<lambda>c f. False), clock = (\<lambda>n. of_nat n),
                windows = False\<rparr>"

definition clip_disk :: fs where
  "clip_disk = [clip \<mapsto> ''old bytes'']"

text \<open>The world at the start of a call: the files, and no call made yet.\<close>

definition fresh :: "fs \<Rightarrow> world" where
  "fresh f = \<lparr>disk = f, trace = []\<rparr>"

text \<open>
  A line that sets the duration: it has an equals sign and its key is \<open>duration_ms\<close>.
  \<open>latest_duration\<close> is the reference a stream leaves when each such line replaces it.
\<close>

definition is_duration_line :: "string \<Rightarrow> bool" where
  "is_duration_line raw =
     (strip raw \<noteq> [] \<and> CHR ''='' \<in> set (strip raw) \<and> key_of (strip raw) = ''duration_ms'')"

definition latest_duration :: "int option \<Rightarrow> string list \<Rightarrow> int option" where
  "latest_duration t0 lines =
     foldl (\<lambda>t raw. if is_duration_line raw then py_int (value_of (strip raw)) else t) t0 lines"

text \<open>A callback that never raises, and a clock that stands still.\<close>

definition no_raise :: callback where
  "no_raise ev = False"

definition frozen_env :: os_env where
  "frozen_env = \<lparr>popen = good_encoder, refused = (\<lambda>c f. False), clock = (\<lambda>n. 0), windows = False\<rparr>"

text \<open>
  A list of events is rising when no event has a lower percentage than an event before
  it; an event without a percentage is lower than none and has none lower.
\<close>

definition pct_le :: "event \<Rightarrow> event \<Rightarrow> bool" where
  "pct_le e1 e2 = (case (fst e1, fst e2) of (Some a, Some b) \<Rightarrow> a \<le> b | _ \<Rightarrow> True)"

definition rising :: "event list \<Rightarrow> bool" where
  "rising evs = sorted_wrt pct_le evs"

text \<open>
  A stream is steady for the duration \<open>D\<close> when every \<open>duration_ms\<close> line carries \<open>D\<close>,
  the integer values of its \<open>out_time_ms\<close> lines never fall (\<open>lo\<close> is the least value
  the next one may have), and no \<open>out_time_ms\<close> line follows a \<open>progress=end\<close>
  (then the bound is \<open>None\<close>).
\<close>

fun steady :: "int \<Rightarrow> int option \<Rightarrow> string list \<Rightarrow> bool" where
  "steady D lo [] = True"
| "steady D lo (raw # rest) =
     (let line = strip raw in
      if line = [] \<or> CHR ''='' \<notin> set line then steady D lo rest
      else if key_of line = ''duration_ms'' then py_int (value_of line) = Some D \<and> steady D lo rest
      else if key_of line = ''out_time_ms'' then
        (case lo of
           None \<Rightarrow> False
         | Some l \<Rightarrow>
             (case py_int (value_of line) of
                None \<Rightarrow> steady D lo rest
              | Some out_ms \<Rightarrow> l \<le> out_ms \<and> steady D (Some out_ms) rest))
      else if key_of line = ''progress'' \<and> value_of line = ''end'' then steady D None rest
      else steady D lo rest)"

text \<open>
  For the proof that a steady stream gives rising events: the percentage of a value of
  \<open>out_time_ms\<close>, the bound that the events delivered so far stay below, and the
  invariant of the loop.
\<close>

definition clamp_pct :: "int \<Rightarrow> int \<Rightarrow> rat" where
  "clamp_pct D out_ms = max 0 (min 100 ((of_int out_ms / of_int D) * 100))"

definition ceiling_of :: "int \<Rightarrow> int option \<Rightarrow> rat" where
  "ceiling_of D lo = (case lo of None \<Rightarrow> 100 | Some l \<Rightarrow> clamp_pct D l)"

definition below :: "rat \<Rightarrow> event list \<Rightarrow> bool" where
  "below b evs = (\<forall>e \<in> set evs. case fst e of None \<Rightarrow> True | Some a \<Rightarrow> a \<le> b)"

definition inv :: "int \<Rightarrow> rat \<Rightarrow> pstate \<Rightarrow> bool" where
  "inv D b st = (rising (delivered st) \<and> below b (delivered st)
                 \<and> (total_ms st = None \<or> total_ms st = Some D))"

text \<open>The calls that rename a file.\<close>

definition is_rename :: "syscall \<Rightarrow> bool" where
  "is_rename c = (case c of Rename a b \<Rightarrow> True | _ \<Rightarrow> False)"

text \<open>
  More concrete surroundings: a stale backup beside the clip, an operating system that
  refuses to move the new file onto the original path, and one that refuses to move the
  original away.
\<close>

definition stale_disk :: fs where
  "stale_disk = [clip \<mapsto> ''old bytes'', backup_path clip \<mapsto> ''stale bytes'']"

definition locked_env :: os_env where
  "locked_env = \<lparr>popen = good_encoder, refused = (\<lambda>c f. c = Rename (tmp_path clip) clip),
                  clock = (\<lambda>n. of_nat n), windows = False\<rparr>"

definition busy_env :: os_env where
  "busy_env = \<lparr>popen = good_encoder, refused = (\<lambda>c f. c = Rename clip (backup_path clip)),
                clock = (\<lambda>n. of_nat n), windows = False\<rparr>"

text \<open>An encoder that gives up with exit code 1 and leaves a partial output file.\<close>

definition bad_encoder :: "string list \<Rightarrow> fs \<Rightarrow> process" where
  "bad_encoder cmd f = Exited [''duration_ms=10000''] [''Invalid data found''] 1
                         (f(tmp_path clip \<mapsto> ''partial''))"

definition failing_env :: os_env where
  "failing_env = \<lparr>popen = bad_encoder, refused = (\<lambda>c f. False), clock = (\<lambda>n. of_nat n),
                   windows = False\<rparr>"

text \<open>A machine on which the encoder cannot be started.\<close>

definition absent_env :: os_env where
  "absent_env = \<lparr>popen = (\<lambda>cmd f. SpawnError), refused = (\<lambda>c f. False), clock = (\<lambda>n. of_nat n),
                  windows = False\<rparr>"

section \<open>Track parsing and the track atom\<close>

lemma py_int_empty: "py_int [] = None"
  by (simp add: py_int_def strip_def)

lemma parse_track_total: "\<exists>r. parse_track x = Inr r"
  by (simp add: parse_track_def Let_def split: sum.splits)

lemma write_track_m4a_tracked: "write_track_m4a flds t = Inr (tracked flds t)"
proof -
  obtain tn tt where "parse_track (strip (field flds ''track'')) = Inr (tn, tt)"
    using parse_track_total by (metis surj_pair)
  then show ?thesis
    by (simp add: write_track_m4a_def tracked_def Let_def)
qed

lemma edit_m4a_edited: "edit_m4a flds cover t = Inr (edited_m4a flds cover t)"
  by (simp add: edit_m4a_def edited_m4a_def write_track_m4a_tracked)

lemma trkn_put_m4a: "trkn (put_m4a k v t) = trkn t"
  by (simp add: put_m4a_def Let_def)

lemma trkn_write_cover_m4a: "trkn (write_cover_m4a c t) = trkn t"
  by (simp add: write_cover_m4a_def Let_def split: option.splits)

lemma trkn_tracked:
  "trkn (tracked flds t) =
     (let tr = strip (field flds ''track'') in
      if tr = [] then None
      else (case parse_track tr of
              Inl e \<Rightarrow> trkn t
            | Inr (tn, tt) \<Rightarrow> if tn \<noteq> 0 then Some [(tn, tt)] else trkn t))"
  by (simp add: tracked_def Let_def split: sum.splits prod.splits)

lemma trkn_edited_m4a:
  "trkn (edited_m4a flds c t) =
     (let tr = strip (field flds ''track'') in
      if tr = [] then None
      else (case parse_track tr of
              Inl e \<Rightarrow> trkn t
            | Inr (tn, tt) \<Rightarrow> if tn \<noteq> 0 then Some [(tn, tt)] else trkn t))"
  by (simp add: edited_m4a_def trkn_write_cover_m4a trkn_tracked trkn_put_m4a Let_def
      split: sum.splits prod.splits)

lemma write_m4a_success:
  assumes "fst (fst (tags_write_m4a env p flds cover store))"
  shows "\<exists>f. store p = Some f \<and> mp4_mutagen_ok env \<and> \<not> mp4_open_fails env p
           \<and> snd (tags_write_m4a env p flds cover store)
               = store(p \<mapsto> f\<lparr>mp4_tags := Some (edited_m4a flds cover
                    (case mp4_tags f of None \<Rightarrow> no_mp4tags | Some t0 \<Rightarrow> t0))\<rparr>)"
proof -
  from assms have a: "mp4_mutagen_ok env" "\<not> mp4_open_fails env p"
    by (auto simp: tags_write_m4a_def split: if_splits)
  from assms a obtain f where f: "store p = Some f"
    by (cases "store p") (auto simp: tags_write_m4a_def)
  from assms a f have "\<not> mp4_save_fails env p (edited_m4a flds cover
      (case mp4_tags f of None \<Rightarrow> no_mp4tags | Some t0 \<Rightarrow> t0))"
    by (auto simp: tags_write_m4a_def edit_m4a_edited split: if_splits)
  with a f show ?thesis
    by (simp add: tags_write_m4a_def edit_m4a_edited)
qed

lemma trkn_of_after_write:
  assumes "fst (fst (tags_write_m4a env p flds cover store))"
  shows "trkn_of (snd (tags_write_m4a env p flds cover store)) p =
     (let tr = strip (field flds ''track'') in
      if tr = [] then None
      else (case parse_track tr of
              Inl e \<Rightarrow> trkn_of store p
            | Inr (tn, tt) \<Rightarrow> if tn \<noteq> 0 then Some [(tn, tt)] else trkn_of store p))"
proof -
  from write_m4a_success [OF assms] obtain f where
    f: "store p = Some f"
    "snd (tags_write_m4a env p flds cover store)
       = store(p \<mapsto> f\<lparr>mp4_tags := Some (edited_m4a flds cover
                    (case mp4_tags f of None \<Rightarrow> no_mp4tags | Some t0 \<Rightarrow> t0))\<rparr>)"
    by blast
  have o: "trkn (case mp4_tags f of None \<Rightarrow> no_mp4tags | Some t0 \<Rightarrow> t0) = trkn_of store p"
    by (simp add: trkn_of_def f(1) no_mp4tags_def split: option.splits)
  show ?thesis
    unfolding f(2) by (simp add: trkn_of_def trkn_edited_m4a o Let_def split: sum.splits prod.splits)
qed

lemma trkn_of_failed_write:
  "\<not> fst (fst (tags_write_m4a env p flds cover store)) \<Longrightarrow>
   snd (tags_write_m4a env p flds cover store) = store"
  by (auto simp: tags_write_m4a_def edit_m4a_edited split: if_splits option.splits)

text \<open>
  C8, as amended. \<open>_parse_track\<close> raises for no string. It accepts the form "N" (giving
  \<open>(N, 0)\<close>) and the form "N/M" (giving \<open>(N, M)\<close>), and maps every string of neither
  form, "abc" among them, to \<open>(0, 0)\<close>. When the track field is not blank and its parsed
  track number is 0, \<open>tags_write_m4a\<close> writes no \<open>trkn\<close> atom and removes none: the file
  has the \<open>trkn\<close> entry it had before, whether the write succeeds or not. A successful
  write removes the entry only when the track field is blank, and stores the parsed
  pair when its track number is not 0.
\<close>

theorem parse_track_forms:
  "(\<exists>r. parse_track x = Inr r)
   \<and> (CHR ''/'' \<notin> set (strip s) \<longrightarrow> py_int (strip s) = Some n \<longrightarrow> parse_track s = Inr (n, 0))
   \<and> (CHR ''/'' \<in> set (strip u) \<longrightarrow> py_int (strip (before_slash (strip u))) = Some a \<longrightarrow>
        py_int (strip (after_slash (strip u))) = Some b \<longrightarrow> parse_track u = Inr (a, b))
   \<and> (\<not> well_formed_track w \<longrightarrow> parse_track w = Inr (0, 0))
   \<and> parse_track ''abc'' = Inr (0, 0)
   \<and> (strip (field flds ''track'') \<noteq> [] \<longrightarrow>
        parse_track (strip (field flds ''track'')) = Inr (0, tt) \<longrightarrow>
        trkn_of (snd (tags_write_m4a env p flds cover store)) p = trkn_of store p)
   \<and> (strip (field fldb ''track'') = [] \<longrightarrow>
        fst (fst (tags_write_m4a env p fldb cover store)) \<longrightarrow>
        trkn_of (snd (tags_write_m4a env p fldb cover store)) p = None)
   \<and> (strip (field fldn ''track'') \<noteq> [] \<longrightarrow>
        parse_track (strip (field fldn ''track'')) = Inr (tn, tm) \<longrightarrow> tn \<noteq> 0 \<longrightarrow>
        fst (fst (tags_write_m4a env p fldn cover store)) \<longrightarrow>
        trkn_of (snd (tags_write_m4a env p fldn cover store)) p = Some [(tn, tm)])"
proof (intro conjI impI)
  show "\<exists>r. parse_track x = Inr r"
    by (rule parse_track_total)
next
  assume "CHR ''/'' \<notin> set (strip s)" "py_int (strip s) = Some n"
  then show "parse_track s = Inr (n, 0)"
    by (auto simp: parse_track_def int_str_def Let_def py_int_empty)
next
  assume "CHR ''/'' \<in> set (strip u)" "py_int (strip (before_slash (strip u))) = Some a"
    "py_int (strip (after_slash (strip u))) = Some b"
  then show "parse_track u = Inr (a, b)"
    by (auto simp: parse_track_def int_str_def Let_def)
next
  assume "\<not> well_formed_track w"
  then show "parse_track w = Inr (0, 0)"
    by (auto simp: parse_track_def int_str_def well_formed_track_def Let_def split: option.splits)
next
  show "parse_track ''abc'' = Inr (0, 0)"
    by (simp add: parse_track_def int_str_def strip_def py_space_def py_int_def digit_of_def)
next
  assume h: "strip (field flds ''track'') \<noteq> []"
    "parse_track (strip (field flds ''track'')) = Inr (0, tt)"
  show "trkn_of (snd (tags_write_m4a env p flds cover store)) p = trkn_of store p"
  proof (cases "fst (fst (tags_write_m4a env p flds cover store))")
    case True
    from trkn_of_after_write [OF True] h show ?thesis by simp
  next
    case False
    then show ?thesis by (simp add: trkn_of_failed_write)
  qed
next
  assume "strip (field fldb ''track'') = []" "fst (fst (tags_write_m4a env p fldb cover store))"
  then show "trkn_of (snd (tags_write_m4a env p fldb cover store)) p = None"
    using trkn_of_after_write [of env p fldb cover store] by simp
next
  assume "strip (field fldn ''track'') \<noteq> []"
    "parse_track (strip (field fldn ''track'')) = Inr (tn, tm)" "tn \<noteq> 0"
    "fst (fst (tags_write_m4a env p fldn cover store))"
  then show "trkn_of (snd (tags_write_m4a env p fldn cover store)) p = Some [(tn, tm)]"
    using trkn_of_after_write [of env p fldn cover store] by simp
qed

lemma int_small:
  "py_int ''7'' = Some 7" "py_int ''3'' = Some 3" "py_int ''12'' = Some 12"
  "py_int ''abc'' = None" "py_int ''x'' = None" "py_int ''1'' = Some 1"
  by (simp_all add: py_int_def strip_def py_space_def digit_of_def int_max_str_digits_def)

lemma strip_small:
  "strip '' 7 '' = ''7''" "strip ''3 / 12'' = ''3 / 12''" "strip ''3 '' = ''3''"
  "strip '' 12'' = ''12''" "strip ''1/x'' = ''1/x''" "strip ''abc'' = ''abc''"
  "strip ''7'' = ''7''" "strip ''3'' = ''3''" "strip ''12'' = ''12''" "strip ''1'' = ''1''"
  "strip ''x'' = ''x''" "strip '' '' = []" "strip '' 3 / 12 '' = ''3 / 12''"
  by (simp_all add: strip_def py_space_def)

lemma quiet_write_m4a_ok: "fst (fst (tags_write_m4a quiet_mp4_env song_m4a flds None track3_store))"
  by (simp add: tags_write_m4a_def quiet_mp4_env_def track3_store_def edit_m4a_edited)

lemma track3_trkn: "trkn_of track3_store song_m4a = Some [(3, 0)]"
  by (simp add: trkn_of_def track3_store_def no_mp4tags_def)

lemma parse_small:
  "parse_track ''abc'' = Inr (0, 0)" "parse_track ''7'' = Inr (7, 0)"
  "parse_track '' 7 '' = Inr (7, 0)" "parse_track ''3 / 12'' = Inr (3, 12)"
  "parse_track ''1/x'' = Inr (0, 0)"
  by (simp_all add: parse_track_def int_str_def Let_def strip_small int_small before_slash_def
      after_slash_def)

theorem parse_track_forms_witness:
  "CHR ''/'' \<notin> set (strip '' 7 '') \<and> py_int (strip '' 7 '') = Some 7
   \<and> parse_track '' 7 '' = Inr (7, 0)
   \<and> CHR ''/'' \<in> set (strip ''3 / 12'')
   \<and> py_int (strip (before_slash (strip ''3 / 12''))) = Some 3
   \<and> py_int (strip (after_slash (strip ''3 / 12''))) = Some 12
   \<and> parse_track ''3 / 12'' = Inr (3, 12)
   \<and> \<not> well_formed_track ''1/x'' \<and> parse_track ''1/x'' = Inr (0, 0)
   \<and> strip (field [''track'' \<mapsto> ''abc''] ''track'') \<noteq> []
   \<and> parse_track (strip (field [''track'' \<mapsto> ''abc''] ''track'')) = Inr (0, 0)
   \<and> trkn_of (snd (tags_write_m4a quiet_mp4_env song_m4a [''track'' \<mapsto> ''abc''] None track3_store))
        song_m4a = Some [(3, 0)]
   \<and> strip (field [''track'' \<mapsto> '' ''] ''track'') = []
   \<and> fst (fst (tags_write_m4a quiet_mp4_env song_m4a [''track'' \<mapsto> '' ''] None track3_store))
   \<and> trkn_of (snd (tags_write_m4a quiet_mp4_env song_m4a [''track'' \<mapsto> '' ''] None track3_store))
        song_m4a = None
   \<and> strip (field [''track'' \<mapsto> ''7''] ''track'') \<noteq> []
   \<and> parse_track (strip (field [''track'' \<mapsto> ''7''] ''track'')) = Inr (7, 0)
   \<and> (7::int) \<noteq> 0
   \<and> fst (fst (tags_write_m4a quiet_mp4_env song_m4a [''track'' \<mapsto> ''7''] None track3_store))
   \<and> trkn_of (snd (tags_write_m4a quiet_mp4_env song_m4a [''track'' \<mapsto> ''7''] None track3_store))
        song_m4a = Some [(7, 0)]"
proof -
  have h1: "CHR ''/'' \<notin> set (strip '' 7 '')" "py_int (strip '' 7 '') = Some 7"
    by (simp_all add: strip_small int_small)
  have h2: "CHR ''/'' \<in> set (strip ''3 / 12'')"
    "py_int (strip (before_slash (strip ''3 / 12''))) = Some 3"
    "py_int (strip (after_slash (strip ''3 / 12''))) = Some 12"
    by (simp_all add: strip_small int_small before_slash_def after_slash_def)
  have h3: "\<not> well_formed_track ''1/x''"
    by (simp add: well_formed_track_def strip_small int_small before_slash_def after_slash_def)
  have h4: "strip (field [''track'' \<mapsto> ''abc''] ''track'') \<noteq> []"
    "parse_track (strip (field [''track'' \<mapsto> ''abc''] ''track'')) = Inr (0, 0)"
    by (simp_all add: field_def strip_small parse_small)
  have h5: "strip (field [''track'' \<mapsto> '' ''] ''track'') = []"
    by (simp add: field_def strip_small)
  have h6: "strip (field [''track'' \<mapsto> ''7''] ''track'') \<noteq> []"
    "parse_track (strip (field [''track'' \<mapsto> ''7''] ''track'')) = Inr (7, 0)"
    by (simp_all add: field_def strip_small parse_small)
  have z: "(7::int) \<noteq> 0" by simp
  note T = parse_track_forms [of "[]" "'' 7 ''" 7 "''3 / 12''" 3 12 "''1/x''"
      "[''track'' \<mapsto> ''abc'']" 0 quiet_mp4_env song_m4a None track3_store
      "[''track'' \<mapsto> '' '']" "[''track'' \<mapsto> ''7'']" 7 0]
  note c = T [THEN conjunct2]
  note A = c [THEN conjunct1, rule_format, OF h1]
  note c = c [THEN conjunct2]
  note B = c [THEN conjunct1, rule_format, OF h2]
  note c = c [THEN conjunct2]
  note C = c [THEN conjunct1, rule_format, OF h3]
  note c = c [THEN conjunct2, THEN conjunct2]
  note D = c [THEN conjunct1, rule_format, OF h4, unfolded track3_trkn]
  note c = c [THEN conjunct2]
  note E = c [THEN conjunct1, rule_format, OF h5 quiet_write_m4a_ok]
  note F = c [THEN conjunct2, rule_format, OF h6 z quiet_write_m4a_ok]
  show ?thesis
    using h1 A h2 B h3 C h4 D h5 quiet_write_m4a_ok [of "[''track'' \<mapsto> '' '']"] E h6 z
      quiet_write_m4a_ok [of "[''track'' \<mapsto> ''7'']"] F
    by - (intro conjI; assumption)
qed

text \<open>
  C8 as stated fails: for the track "abc", whose parsed number is 0, the write succeeds
  and the file still has the \<open>trkn\<close> atom it had; the atom is not omitted.
\<close>

theorem parse_track_forms_counterexample:
  "parse_track ''abc'' = Inr (0, 0)
   \<and> trkn_of track3_store song_m4a = Some [(3, 0)]
   \<and> fst (fst (tags_write_m4a quiet_mp4_env song_m4a [''track'' \<mapsto> ''abc''] None track3_store))
   \<and> trkn_of (snd (tags_write_m4a quiet_mp4_env song_m4a [''track'' \<mapsto> ''abc''] None track3_store))
        song_m4a = Some [(3, 0)]"
proof -
  have "trkn_of (snd (tags_write_m4a quiet_mp4_env song_m4a [''track'' \<mapsto> ''abc''] None track3_store))
        song_m4a = Some [(3, 0)]"
    using trkn_of_after_write [OF quiet_write_m4a_ok, of "[''track'' \<mapsto> ''abc'']"]
    by (simp add: field_def strip_small parse_small track3_trkn)
  then show ?thesis
    using quiet_write_m4a_ok by (simp add: parse_small track3_trkn)
qed

section \<open>The frames an MP3 write leaves alone\<close>

lemma outside_delall:
  "key \<in> set fids \<Longrightarrow> frames_outside fids (delall key tags) = frames_outside fids tags"
  by (auto simp: frames_outside_def delall_def AList.delete_eq owns_def split: option.splits
      intro!: filter_cong)

lemma outside_update:
  "fid \<in> set fids \<Longrightarrow> owns fid k \<Longrightarrow>
   frames_outside fids (AList.update k v tags) = frames_outside fids tags"
  by (induction tags) (auto simp: frames_outside_def)

lemma outside_setall1:
  "key \<in> set fids \<Longrightarrow> owns key (HashKey fr) \<Longrightarrow>
   frames_outside fids (setall key [fr] tags) = frames_outside fids tags"
  by (simp add: setall_def outside_update outside_delall)

lemma outside_put_mp3:
  "fid \<in> set fids \<Longrightarrow>
   frames_outside fids (put_mp3 fid (TextFrame fid e t) v tags) = frames_outside fids tags"
  by (simp add: put_mp3_def Let_def outside_setall1 outside_delall owns_def)

lemma outside_write_comment:
  "''COMM'' \<in> set fids \<Longrightarrow>
   frames_outside fids (write_comment_mp3 env flds tags) = frames_outside fids tags"
  by (simp add: write_comment_mp3_def Let_def outside_setall1 outside_delall owns_def
      startswith_def)

lemma outside_write_cover:
  "''APIC'' \<in> set fids \<or> cover = None \<Longrightarrow>
   frames_outside fids (write_cover_mp3 cover tags) = frames_outside fids tags"
  by (auto simp: write_cover_mp3_def Let_def add_def outside_update outside_delall owns_def
      startswith_def split: option.splits)

lemma outside_edit_mp3:
  assumes "set written_ids \<subseteq> set fids" "''APIC'' \<in> set fids \<or> cover = None"
  shows "frames_outside fids (edit_mp3 env flds cover tags) = frames_outside fids tags"
proof -
  from assms(1) have m: "''TIT2'' \<in> set fids" "''TPE1'' \<in> set fids" "''TALB'' \<in> set fids"
    "''TRCK'' \<in> set fids" "''TDRC'' \<in> set fids" "''TCON'' \<in> set fids" "''COMM'' \<in> set fids"
    by (auto simp: written_ids_def)
  show ?thesis
    unfolding edit_mp3_def
    by (simp add: outside_write_cover [OF assms(2)] outside_write_comment m outside_put_mp3)
qed

lemma outside_tags_write_mp3:
  assumes "set written_ids \<subseteq> set fids" "''APIC'' \<in> set fids \<or> cover = None"
  shows "frames_outside fids (frames_of (snd (tags_write_mp3 env p flds cover store)) q)
         = frames_outside fids (frames_of store q)"
proof -
  have e: "frames_outside fids (edit_mp3 env flds cover t) = frames_outside fids t" for t
    by (rule outside_edit_mp3 [OF assms])
  have n: "edit_mp3 env flds cover t = [] \<Longrightarrow> frames_outside fids t = []" for t
    using e [of t] by (simp add: frames_outside_def)
  show ?thesis
    using e [of "[]"]
    by (auto simp: tags_write_mp3_def frames_of_def Let_def e n frames_outside_def [of _ "[]"]
        split: option.splits)
qed

lemma map_of_outside:
  "\<forall>fid \<in> set fids. \<not> owns fid k \<Longrightarrow> map_of (frames_outside fids tags) k = map_of tags k"
  by (induction tags) (auto simp: frames_outside_def)

lemma getall_APIC_outside:
  "getall ''APIC'' (frames_outside written_ids tags) = getall ''APIC'' tags"
proof -
  have a: "\<forall>fid \<in> set written_ids. \<not> owns fid ''APIC''"
    by (simp add: written_ids_def owns_def startswith_def)
  have b: "startswith k ''APIC:'' \<Longrightarrow> \<forall>fid \<in> set written_ids. \<not> owns fid k" for k
    by (auto simp: written_ids_def owns_def startswith_def)
  have c: "filter (\<lambda>(s, v). startswith s ''APIC:'') (frames_outside written_ids tags)
           = filter (\<lambda>(s, v). startswith s ''APIC:'') tags"
    unfolding frames_outside_def filter_filter
    by (rule filter_cong) (use b in auto)
  show ?thesis
    using c by (simp add: getall_def map_of_outside [OF a] split: option.splits)
qed

text \<open>
  C10. \<open>tags_write_mp3\<close> changes only frames whose keys belong to TIT2, TPE1, TALB,
  TRCK, TDRC, TCON, COMM or APIC: the entries of every other key are in the file after
  the call as they were before, in the same order, whether the call succeeds or fails
  and for every file \<open>q\<close> of the store. When the cover argument is \<open>None\<close>, the
  entries of APIC keys are kept as well, and \<open>getall("APIC")\<close> gives what it gave before.
\<close>

theorem tags_write_mp3_frame:
  "frames_outside (written_ids @ [''APIC''])
       (frames_of (snd (tags_write_mp3 env p flds cover store)) q)
     = frames_outside (written_ids @ [''APIC'']) (frames_of store q)
   \<and> (cover = None \<longrightarrow>
        frames_outside written_ids (frames_of (snd (tags_write_mp3 env p flds cover store)) q)
          = frames_outside written_ids (frames_of store q)
        \<and> getall ''APIC'' (frames_of (snd (tags_write_mp3 env p flds cover store)) q)
          = getall ''APIC'' (frames_of store q))"
proof (intro conjI impI)
  show "frames_outside (written_ids @ [''APIC''])
          (frames_of (snd (tags_write_mp3 env p flds cover store)) q)
        = frames_outside (written_ids @ [''APIC'']) (frames_of store q)"
    by (rule outside_tags_write_mp3) auto
next
  assume n: "cover = None"
  then show o: "frames_outside written_ids (frames_of (snd (tags_write_mp3 env p flds cover store)) q)
          = frames_outside written_ids (frames_of store q)"
    by (intro outside_tags_write_mp3) simp_all
  show "getall ''APIC'' (frames_of (snd (tags_write_mp3 env p flds cover store)) q)
          = getall ''APIC'' (frames_of store q)"
    using o getall_APIC_outside by metis
qed

theorem tags_write_mp3_frame_witness:
  "(None :: cover_dict option) = None
   \<and> fst (tags_write_mp3 quiet_id3_env song_mp3 [''title'' \<mapsto> ''New''] None tagged_store) = (True, OK)
   \<and> frames_outside written_ids
        (frames_of (snd (tags_write_mp3 quiet_id3_env song_mp3 [''title'' \<mapsto> ''New''] None tagged_store))
           song_mp3)
      = [(''TXXX:mood'', OtherFrame ''TXXX:mood'' ''calm''),
         (''APIC:Cover'', APIC 3 ''image/png'' 3 ''Cover'' ''PNG'')]
   \<and> getall ''APIC''
        (frames_of (snd (tags_write_mp3 quiet_id3_env song_mp3 [''title'' \<mapsto> ''New''] None tagged_store))
           song_mp3)
      = [APIC 3 ''image/png'' 3 ''Cover'' ''PNG'']"
proof -
  have f: "frames_of tagged_store song_mp3 =
             [(''TIT2'', TextFrame ''TIT2'' 3 [''Old'']),
              (''TXXX:mood'', OtherFrame ''TXXX:mood'' ''calm''),
              (''APIC:Cover'', APIC 3 ''image/png'' 3 ''Cover'' ''PNG'')]"
    by (simp add: frames_of_def tagged_store_def)
  have o: "frames_outside written_ids (frames_of tagged_store song_mp3) =
             [(''TXXX:mood'', OtherFrame ''TXXX:mood'' ''calm''),
              (''APIC:Cover'', APIC 3 ''image/png'' 3 ''Cover'' ''PNG'')]"
    unfolding f by (simp add: frames_outside_def written_ids_def owns_def startswith_def)
  have g: "getall ''APIC'' (frames_of tagged_store song_mp3) = [APIC 3 ''image/png'' 3 ''Cover'' ''PNG'']"
    unfolding f by (simp add: getall_def startswith_def)
  have r: "fst (tags_write_mp3 quiet_id3_env song_mp3 [''title'' \<mapsto> ''New''] None tagged_store)
             = (True, OK)"
    by (simp add: tags_write_mp3_def quiet_id3_env_def tagged_store_def Let_def)
  show ?thesis
    using tags_write_mp3_frame [of quiet_id3_env song_mp3 "[''title'' \<mapsto> ''New'']" None
        tagged_store song_mp3] o g r
    by simp
qed

section \<open>Writing and reading back\<close>









































section \<open>Export\<close>

lemma popen_first:
  "map fst (trace (snd (snd (run_ffmpeg_with_progress env cmd cb w))))
     = map fst (trace w) @ [Popen cmd]"
  by (simp add: run_ffmpeg_with_progress_def logged_def Let_def split: process.splits)

text \<open>
  C7. An export that is not of kind "video" and whose destination extension, in lower
  case, is none of .m4a, .mp3 and .ogg returns a failure at once: no process is
  spawned, no call is made, and the world is as it was. The failure is the one for an
  unknown audio format, or the one for a missing encoder when no encoder path is
  configured. With an encoder path and the extension .m4a, .mp3 or .ogg, the export
  makes one call, which spawns the encoder with the arguments \<open>-c:a aac -b:a 192k\<close>,
  \<open>-c:a libmp3lame -q:a 2\<close> or \<open>-c:a libvorbis -q:a 6\<close> respectively, between
  \<open>-y -i src -vn\<close> and \<open>-progress pipe:1 -nostats dst\<close>.
\<close>

theorem ffmpeg_export_audio:
  "(kind \<noteq> ''video'' \<longrightarrow> lower (suffix dst) \<notin> {''.m4a'', ''.mp3'', ''.ogg''} \<longrightarrow>
      ffmpeg_export env ffmpeg_path src dst kind cb w
        = ((False, if ffmpeg_path = None \<or> ffmpeg_path = Some [] then FfmpegMissing
                   else UnknownAudioFormat (lower (suffix dst))), [], w))
   \<and> (kind \<noteq> ''video'' \<longrightarrow> exe \<noteq> [] \<longrightarrow> lower (suffix dst_a) = ''.m4a'' \<longrightarrow>
        map fst (trace (snd (snd (ffmpeg_export env (Some exe) src dst_a kind cb w))))
          = map fst (trace w)
            @ [Popen [exe, ''-y'', ''-i'', path_str src, ''-vn'', ''-c:a'',
                      ''aac'', ''-b:a'', ''192k'', ''-progress'', ''pipe:1'', ''-nostats'', path_str dst_a]])
   \<and> (kind \<noteq> ''video'' \<longrightarrow> exe \<noteq> [] \<longrightarrow> lower (suffix dst_m) = ''.mp3'' \<longrightarrow>
        map fst (trace (snd (snd (ffmpeg_export env (Some exe) src dst_m kind cb w))))
          = map fst (trace w)
            @ [Popen [exe, ''-y'', ''-i'', path_str src, ''-vn'', ''-c:a'',
                      ''libmp3lame'', ''-q:a'', ''2'', ''-progress'', ''pipe:1'', ''-nostats'', path_str dst_m]])
   \<and> (kind \<noteq> ''video'' \<longrightarrow> exe \<noteq> [] \<longrightarrow> lower (suffix dst_o) = ''.ogg'' \<longrightarrow>
        map fst (trace (snd (snd (ffmpeg_export env (Some exe) src dst_o kind cb w))))
          = map fst (trace w)
            @ [Popen [exe, ''-y'', ''-i'', path_str src, ''-vn'', ''-c:a'',
                      ''libvorbis'', ''-q:a'', ''6'', ''-progress'', ''pipe:1'', ''-nostats'', path_str dst_o]])"
proof (intro conjI impI)
  assume "kind \<noteq> ''video''" "lower (suffix dst) \<notin> {''.m4a'', ''.mp3'', ''.ogg''}"
  then show "ffmpeg_export env ffmpeg_path src dst kind cb w
        = ((False, if ffmpeg_path = None \<or> ffmpeg_path = Some [] then FfmpegMissing
                   else UnknownAudioFormat (lower (suffix dst))), [], w)"
    by (cases ffmpeg_path) (simp_all add: ffmpeg_export_def Let_def)
next
  assume "kind \<noteq> ''video''" "exe \<noteq> []" "lower (suffix dst_a) = ''.m4a''"
  then show "map fst (trace (snd (snd (ffmpeg_export env (Some exe) src dst_a kind cb w))))
          = map fst (trace w)
            @ [Popen [exe, ''-y'', ''-i'', path_str src, ''-vn'', ''-c:a'',
                      ''aac'', ''-b:a'', ''192k'', ''-progress'', ''pipe:1'', ''-nostats'', path_str dst_a]]"
    by (simp add: ffmpeg_export_def Let_def popen_first)
next
  assume "kind \<noteq> ''video''" "exe \<noteq> []" "lower (suffix dst_m) = ''.mp3''"
  then show "map fst (trace (snd (snd (ffmpeg_export env (Some exe) src dst_m kind cb w))))
          = map fst (trace w)
            @ [Popen [exe, ''-y'', ''-i'', path_str src, ''-vn'', ''-c:a'',
                      ''libmp3lame'', ''-q:a'', ''2'', ''-progress'', ''pipe:1'', ''-nostats'', path_str dst_m]]"
    by (simp add: ffmpeg_export_def Let_def popen_first)
next
  assume "kind \<noteq> ''video''" "exe \<noteq> []" "lower (suffix dst_o) = ''.ogg''"
  then show "map fst (trace (snd (snd (ffmpeg_export env (Some exe) src dst_o kind cb w))))
          = map fst (trace w)
            @ [Popen [exe, ''-y'', ''-i'', path_str src, ''-vn'', ''-c:a'',
                      ''libvorbis'', ''-q:a'', ''6'', ''-progress'', ''pipe:1'', ''-nostats'', path_str dst_o]]"
    by (simp add: ffmpeg_export_def Let_def popen_first)
qed

theorem ffmpeg_export_audio_witness:
  "''audio'' \<noteq> ''video''
   \<and> lower (suffix \<lparr>parent = ''/out'', name = ''clip.WAV''\<rparr>) \<notin> {''.m4a'', ''.mp3'', ''.ogg''}
   \<and> ffmpeg_export calm_env (Some ''ffmpeg'') clip \<lparr>parent = ''/out'', name = ''clip.WAV''\<rparr>
        ''audio'' None (fresh clip_disk)
      = ((False, UnknownAudioFormat ''.wav''), [], fresh clip_disk)
   \<and> ''ffmpeg'' \<noteq> []
   \<and> lower (suffix \<lparr>parent = ''/out'', name = ''clip.M4A''\<rparr>) = ''.m4a''
   \<and> map fst (trace (snd (snd (ffmpeg_export calm_env (Some ''ffmpeg'') clip
          \<lparr>parent = ''/out'', name = ''clip.M4A''\<rparr> ''audio'' None (fresh clip_disk)))))
      = [Popen [''ffmpeg'', ''-y'', ''-i'', ''/videos/clip.mp4'', ''-vn'', ''-c:a'',
               ''aac'', ''-b:a'', ''192k'', ''-progress'', ''pipe:1'', ''-nostats'', ''/out/clip.M4A'']]
   \<and> lower (suffix \<lparr>parent = ''/out'', name = ''clip.mp3''\<rparr>) = ''.mp3''
   \<and> map fst (trace (snd (snd (ffmpeg_export calm_env (Some ''ffmpeg'') clip
          \<lparr>parent = ''/out'', name = ''clip.mp3''\<rparr> ''audio'' None (fresh clip_disk)))))
      = [Popen [''ffmpeg'', ''-y'', ''-i'', ''/videos/clip.mp4'', ''-vn'', ''-c:a'',
               ''libmp3lame'', ''-q:a'', ''2'', ''-progress'', ''pipe:1'', ''-nostats'', ''/out/clip.mp3'']]
   \<and> lower (suffix \<lparr>parent = ''/out'', name = ''clip.ogg''\<rparr>) = ''.ogg''
   \<and> map fst (trace (snd (snd (ffmpeg_export calm_env (Some ''ffmpeg'') clip
          \<lparr>parent = ''/out'', name = ''clip.ogg''\<rparr> ''audio'' None (fresh clip_disk)))))
      = [Popen [''ffmpeg'', ''-y'', ''-i'', ''/videos/clip.mp4'', ''-vn'', ''-c:a'',
               ''libvorbis'', ''-q:a'', ''6'', ''-progress'', ''pipe:1'', ''-nostats'', ''/out/clip.ogg'']]"
proof -
  have e: "lower (suffix \<lparr>parent = ''/out'', name = ''clip.WAV''\<rparr>) = ''.wav''"
    "lower (suffix \<lparr>parent = ''/out'', name = ''clip.M4A''\<rparr>) = ''.m4a''"
    "lower (suffix \<lparr>parent = ''/out'', name = ''clip.mp3''\<rparr>) = ''.mp3''"
    "lower (suffix \<lparr>parent = ''/out'', name = ''clip.ogg''\<rparr>) = ''.ogg''"
    by code_simp+
  have p: "path_str clip = ''/videos/clip.mp4''"
    "path_str \<lparr>parent = ''/out'', name = ''clip.M4A''\<rparr> = ''/out/clip.M4A''"
    "path_str \<lparr>parent = ''/out'', name = ''clip.mp3''\<rparr> = ''/out/clip.mp3''"
    "path_str \<lparr>parent = ''/out'', name = ''clip.ogg''\<rparr> = ''/out/clip.ogg''"
    by (simp_all add: path_str_def clip_def)
  show ?thesis
    using ffmpeg_export_audio [of "''audio''" "\<lparr>parent = ''/out'', name = ''clip.WAV''\<rparr>"
        calm_env "Some ''ffmpeg''" clip None "fresh clip_disk" "''ffmpeg''"
        "\<lparr>parent = ''/out'', name = ''clip.M4A''\<rparr>" "\<lparr>parent = ''/out'', name = ''clip.mp3''\<rparr>"
        "\<lparr>parent = ''/out'', name = ''clip.ogg''\<rparr>"]
    by (simp add: e p fresh_def)
qed

section \<open>The duration reference\<close>

lemma total_ms_deliver: "total_ms (deliver cb ev st) = total_ms st"
  by (simp add: deliver_def)

lemma total_ms_on_out_time: "total_ms (on_out_time env cb v st) = total_ms st"
  by (simp add: on_out_time_def Let_def total_ms_deliver split: option.splits)

lemma total_ms_on_progress_end: "total_ms (on_progress_end cb st) = total_ms st"
  by (simp add: on_progress_end_def total_ms_deliver split: option.splits)

lemma total_ms_process_line:
  "total_ms (process_line env cb st raw) =
     (if is_duration_line raw then py_int (value_of (strip raw)) else total_ms st)"
  by (auto simp: process_line_def is_duration_line_def Let_def total_ms_on_out_time
      total_ms_on_progress_end)

lemma total_ms_feed:
  "\<not> aborted (feed env cb st lines) \<Longrightarrow>
   total_ms (feed env cb st lines) = latest_duration (total_ms st) lines"
proof (induction lines arbitrary: st)
  case Nil
  then show ?case by (simp add: latest_duration_def)
next
  case (Cons raw rest)
  show ?case
  proof (cases "aborted (process_line env cb st raw)")
    case True
    with Cons.prems show ?thesis by (simp add: Let_def)
  next
    case False
    with Cons.prems have "\<not> aborted (feed env cb (process_line env cb st raw) rest)"
      by (simp add: Let_def)
    from Cons.IH [OF this] False show ?thesis
      by (simp add: Let_def latest_duration_def total_ms_process_line)
  qed
qed

text \<open>
  C5, as amended. The duration reference is not latched: every line with the key
  \<open>duration_ms\<close> replaces it by the integer its value parses to, and clears it when the
  value is no integer; every other line leaves it. After a loop that the callback did
  not end, the reference is the one of the last such line.
\<close>

theorem duration_reference:
  "(is_duration_line raw \<longrightarrow>
      total_ms (process_line env cb st raw) = py_int (value_of (strip raw)))
   \<and> (\<not> is_duration_line other \<longrightarrow> total_ms (process_line env cb st other) = total_ms st)
   \<and> (\<not> aborted (feed env cb st lines) \<longrightarrow>
        total_ms (feed env cb st lines) = latest_duration (total_ms st) lines)"
  by (simp add: total_ms_process_line total_ms_feed)

lemma line_facts:
  "strip ''duration_ms=10000'' = ''duration_ms=10000''"
  "key_of ''duration_ms=10000'' = ''duration_ms''"
  "value_of ''duration_ms=10000'' = ''10000''"
  "strip ''duration_ms=20000'' = ''duration_ms=20000''"
  "key_of ''duration_ms=20000'' = ''duration_ms''"
  "value_of ''duration_ms=20000'' = ''20000''"
  "strip ''duration_ms=abc'' = ''duration_ms=abc''"
  "key_of ''duration_ms=abc'' = ''duration_ms''"
  "value_of ''duration_ms=abc'' = ''abc''"
  "strip ''out_time_ms=2500'' = ''out_time_ms=2500''"
  "key_of ''out_time_ms=2500'' = ''out_time_ms''"
  "value_of ''out_time_ms=2500'' = ''2500''"
  "strip ''out_time_ms=5000'' = ''out_time_ms=5000''"
  "key_of ''out_time_ms=5000'' = ''out_time_ms''"
  "value_of ''out_time_ms=5000'' = ''5000''"
  "strip ''out_time_ms=7500'' = ''out_time_ms=7500''"
  "key_of ''out_time_ms=7500'' = ''out_time_ms''"
  "value_of ''out_time_ms=7500'' = ''7500''"
  "strip ''progress=end'' = ''progress=end''"
  "key_of ''progress=end'' = ''progress''"
  "value_of ''progress=end'' = ''end''"
  by (simp_all add: strip_def key_of_def value_of_def py_space_def)

lemma int_facts:
  "py_int ''10000'' = Some 10000"
  "py_int ''20000'' = Some 20000"
  "py_int ''abc'' = None"
  "py_int ''2500'' = Some 2500"
  "py_int ''5000'' = Some 5000"
  "py_int ''7500'' = Some 7500"
  by (simp_all add: py_int_def strip_def py_space_def digit_of_def int_max_str_digits_def)

lemma percent_facts:
  "percent 2500 10000 = Some 25"
  "percent 7500 10000 = Some 75"
  "percent 5000 20000 = Some 25"
  by (simp_all add: percent_def float_overflow_def Let_def)

theorem duration_reference_witness:
  "is_duration_line ''duration_ms=20000''
   \<and> \<not> is_duration_line ''out_time_ms=2500''
   \<and> \<not> aborted (feed calm_env None (start_state calm_env)
                  [''duration_ms=10000'', ''out_time_ms=2500'', ''duration_ms=20000''])
   \<and> total_ms (process_line calm_env None (start_state calm_env) ''duration_ms=20000'') = Some 20000
   \<and> total_ms (process_line calm_env None (start_state calm_env) ''out_time_ms=2500'') = None
   \<and> total_ms (feed calm_env None (start_state calm_env)
                  [''duration_ms=10000'', ''out_time_ms=2500'', ''duration_ms=20000'']) = Some 20000"
proof -
  have d: "is_duration_line ''duration_ms=20000''" "\<not> is_duration_line ''out_time_ms=2500''"
    "is_duration_line ''duration_ms=10000''"
    by (simp_all add: is_duration_line_def line_facts)
  have a: "\<not> aborted (feed calm_env None (start_state calm_env)
                  [''duration_ms=10000'', ''out_time_ms=2500'', ''duration_ms=20000''])"
    by (simp add: process_line_def line_facts int_facts Let_def on_out_time_def start_state_def)
  have l: "latest_duration None [''duration_ms=10000'', ''out_time_ms=2500'', ''duration_ms=20000'']
           = Some 20000"
    by (simp add: latest_duration_def d line_facts int_facts)
  have s: "total_ms (start_state calm_env) = None"
    by (simp add: start_state_def)
  show ?thesis
    using duration_reference [of "''duration_ms=20000''" calm_env None "start_state calm_env"
        "''out_time_ms=2500''"
        "[''duration_ms=10000'', ''out_time_ms=2500'', ''duration_ms=20000'']"]
      d a l s
    by (simp add: line_facts int_facts)
qed

text \<open>
  C5 as stated fails: a second \<open>duration_ms\<close> line changes the reference, a malformed
  one clears it, and the percentage of a later line is computed from the new value.
\<close>

theorem duration_reference_counterexample:
  "total_ms (feed calm_env None (start_state calm_env) [''duration_ms=10000'', ''duration_ms=20000''])
     = Some 20000
   \<and> total_ms (feed calm_env None (start_state calm_env) [''duration_ms=10000'', ''duration_ms=abc''])
     = None
   \<and> delivered (feed calm_env (Some no_raise) (start_state calm_env)
        [''duration_ms=10000'', ''duration_ms=20000'', ''out_time_ms=5000''])
     = [(Some 25, Running)]"
  by (simp add: process_line_def line_facts int_facts percent_facts Let_def on_out_time_def
      start_state_def deliver_def no_raise_def calm_env_def)

section \<open>Progress events\<close>

lemma clamp_pct_mono:
  assumes "0 < D" "a \<le> b"
  shows "clamp_pct D a \<le> clamp_pct D b"
proof -
  have "(of_int a :: rat) / of_int D \<le> of_int b / of_int D"
    using assms by (simp add: divide_right_mono)
  then have "(of_int a :: rat) / of_int D * 100 \<le> of_int b / of_int D * 100"
    by (rule mult_right_mono) simp
  then show ?thesis
    unfolding clamp_pct_def by (simp add: min_def max_def)
qed

lemma clamp_pct_le_100: "clamp_pct D a \<le> 100"
  by (simp add: clamp_pct_def)

lemma percent_clamp: "percent out_ms D = Some q \<Longrightarrow> q = clamp_pct D out_ms"
  by (auto simp: percent_def clamp_pct_def Let_def split: if_splits)

lemma below_mono: "below b evs \<Longrightarrow> b \<le> c \<Longrightarrow> below c evs"
  by (fastforce simp: below_def split: option.splits)

lemma rising_snoc:
  "rising evs \<Longrightarrow> below b evs \<Longrightarrow> (case fst ev of None \<Rightarrow> True | Some a \<Rightarrow> b \<le> a) \<Longrightarrow>
   rising (evs @ [ev])"
  by (fastforce simp: rising_def sorted_wrt_append below_def pct_le_def split: option.splits)

lemma below_snoc:
  "below b evs \<Longrightarrow> (case fst ev of None \<Rightarrow> True | Some a \<Rightarrow> a \<le> b) \<Longrightarrow> below b (evs @ [ev])"
  by (auto simp: below_def)

lemma inv_mono: "inv D b st \<Longrightarrow> b \<le> c \<Longrightarrow> inv D c st"
  by (auto simp: inv_def intro: below_mono)

lemma inv_deliver:
  assumes "inv D b st" "b \<le> c" "case p of None \<Rightarrow> True | Some a \<Rightarrow> a = c"
  shows "inv D c (deliver cb (p, ph) st)"
proof -
  from assms have r: "rising (delivered st @ [(p, ph)])"
    by (intro rising_snoc [where b = b]) (auto simp: inv_def split: option.splits)
  from assms have "below c (delivered st)"
    by (auto simp: inv_def intro: below_mono)
  with assms(3) have "below c (delivered st @ [(p, ph)])"
    by (intro below_snoc) (auto split: option.splits)
  with r assms(1) show ?thesis
    by (simp add: inv_def deliver_def)
qed

lemma inv_ticks: "inv D b (st\<lparr>ticks := n\<rparr>) = inv D b st"
  by (simp add: inv_def)

lemma inv_last_update: "inv D b (st\<lparr>last_update := t\<rparr>) = inv D b st"
  by (simp add: inv_def)

lemma inv_on_out_time:
  assumes "0 < D" "inv D (clamp_pct D l) st" "py_int v = Some out_ms" "l \<le> out_ms"
  shows "inv D (clamp_pct D out_ms) (on_out_time env cb v st)"
proof -
  have m: "clamp_pct D l \<le> clamp_pct D out_ms"
    using assms(1,4) by (rule clamp_pct_mono)
  define pct where "pct = (case total_ms st of
                   None \<Rightarrow> None
                 | Some t \<Rightarrow>
                     if t \<noteq> 0 \<and> t > 0 then
                       (case py_int v of None \<Rightarrow> None | Some out_ms \<Rightarrow> percent out_ms t)
                     else None)"
  have p: "case pct of None \<Rightarrow> True | Some a \<Rightarrow> a = clamp_pct D out_ms"
    using assms(2,3) by (auto simp: pct_def inv_def dest: percent_clamp split: option.splits)
  have i0: "inv D (clamp_pct D out_ms) st"
    using assms(2) m by (rule inv_mono)
  have d: "inv D (clamp_pct D out_ms) (deliver f (pct, Running) (st\<lparr>ticks := n\<rparr>))" for f n
    by (rule inv_deliver [OF _ m p]) (simp add: inv_ticks assms(2))
  show ?thesis
    unfolding on_out_time_def pct_def [symmetric] Let_def
    by (auto simp: i0 inv_ticks inv_last_update d split: option.splits)
qed

lemma inv_on_out_time_unparsed:
  assumes "inv D b st" "py_int v = None"
  shows "inv D b (on_out_time env cb v st)"
proof -
  define pct where "pct = (case total_ms st of
                   None \<Rightarrow> None
                 | Some t \<Rightarrow>
                     if t \<noteq> 0 \<and> t > 0 then
                       (case py_int v of None \<Rightarrow> None | Some out_ms \<Rightarrow> percent out_ms t)
                     else None)"
  have p: "pct = None"
    using assms(2) by (simp add: pct_def split: option.splits)
  have d: "inv D b (deliver f (None, Running) (st\<lparr>ticks := n\<rparr>))" for f n
    by (rule inv_deliver [where b = b]) (simp_all add: inv_ticks assms(1))
  show ?thesis
    unfolding on_out_time_def pct_def [symmetric] Let_def p
    by (auto simp: assms(1) inv_ticks inv_last_update d split: option.splits)
qed

lemma inv_on_progress_end:
  assumes "inv D b st" "b \<le> 100"
  shows "inv D 100 (on_progress_end cb st)"
  using assms
  by (auto simp: on_progress_end_def intro: inv_mono inv_deliver split: option.splits)

lemma ceiling_le_100: "ceiling_of D lo \<le> 100"
  by (simp add: ceiling_of_def clamp_pct_le_100 split: option.splits)

lemma inv_total: "inv D b st \<Longrightarrow> inv D b (st\<lparr>total_ms := Some D\<rparr>)"
  by (simp add: inv_def)

lemma steady_feed:
  assumes "0 < D"
  shows "steady D lo lines \<Longrightarrow> inv D (ceiling_of D lo) st \<Longrightarrow>
         rising (delivered (feed env cb st lines))"
proof (induction lines arbitrary: lo st)
  case Nil
  then show ?case by (simp add: inv_def)
next
  case (Cons raw rest)
  let ?line = "strip raw"
  let ?st = "process_line env cb st raw"
  have "\<exists>lo'. steady D lo' rest \<and> inv D (ceiling_of D lo') ?st"
  proof (cases "?line = [] \<or> CHR ''='' \<notin> set ?line")
    case True
    with Cons.prems show ?thesis
      by (auto simp: process_line_def Let_def)
  next
    case False
    note nb = this
    show ?thesis
    proof (cases "key_of ?line = ''duration_ms''")
      case True
      with nb Cons.prems have "steady D lo rest" "?st = st\<lparr>total_ms := Some D\<rparr>"
        by (auto simp: process_line_def Let_def)
      with Cons.prems(2) show ?thesis
        by (auto intro: inv_total)
    next
      case False
      note nd = this
      show ?thesis
      proof (cases "key_of ?line = ''out_time_ms''")
        case True
        with nb nd have st: "?st = on_out_time env cb (value_of ?line) st"
          by (simp add: process_line_def Let_def)
        from True nb nd Cons.prems(1) obtain l where l: "lo = Some l"
          by (cases lo) (auto simp: Let_def)
        show ?thesis
        proof (cases "py_int (value_of ?line)")
          case None
          with True nb nd Cons.prems(1) l have "steady D lo rest"
            by (auto simp: Let_def)
          moreover have "inv D (ceiling_of D lo) ?st"
            unfolding st using Cons.prems(2) None by (rule inv_on_out_time_unparsed)
          ultimately show ?thesis by blast
        next
          case (Some out_ms)
          with True nb nd Cons.prems(1) l have s: "l \<le> out_ms" "steady D (Some out_ms) rest"
            by (auto simp: Let_def)
          have "inv D (clamp_pct D out_ms) ?st"
            unfolding st using assms Cons.prems(2) Some s(1)
            by (intro inv_on_out_time [where l = l]) (simp_all add: l ceiling_of_def)
          with s(2) show ?thesis
            by (auto simp: ceiling_of_def intro!: exI [where x = "Some out_ms"])
        qed
      next
        case False
        note no = this
        show ?thesis
        proof (cases "key_of ?line = ''progress'' \<and> value_of ?line = ''end''")
          case True
          with nb nd no Cons.prems(1) have "steady D None rest"
            "?st = on_progress_end cb st"
            by (auto simp: process_line_def Let_def)
          moreover have "inv D 100 (on_progress_end cb st)"
            using Cons.prems(2) ceiling_le_100 by (rule inv_on_progress_end)
          ultimately show ?thesis
            by (auto simp: ceiling_of_def intro!: exI [where x = None])
        next
          case False
          with nb nd no Cons.prems show ?thesis
            by (auto simp: process_line_def Let_def)
        qed
      qed
    qed
  qed
  then obtain lo' where n: "steady D lo' rest" "inv D (ceiling_of D lo') ?st"
    by blast
  show ?case
  proof (cases "aborted ?st")
    case True
    with n(2) show ?thesis by (simp add: Let_def inv_def)
  next
    case False
    with Cons.IH [OF n] show ?thesis by (simp add: Let_def)
  qed
qed

lemma inv_start: "inv D b (start_state env)"
  by (simp add: inv_def start_state_def rising_def below_def)

lemma four_lines_steps:
  "process_line env (Some cb) st ''duration_ms=10000'' = st\<lparr>total_ms := Some 10000\<rparr>"
  "process_line env (Some cb) st ''out_time_ms=2500'' = on_out_time env (Some cb) ''2500'' st"
  "process_line env (Some cb) st ''out_time_ms=7500'' = on_out_time env (Some cb) ''7500'' st"
  "process_line env (Some cb) st ''progress=end'' = on_progress_end (Some cb) st"
  by (simp_all add: process_line_def line_facts int_facts Let_def)

lemma four_lines:
  "delivered (feed env (Some cb) (start_state env)
          [''duration_ms=10000'', ''out_time_ms=2500'', ''out_time_ms=7500'', ''progress=end''])
        = (if clock env 1 - clock env 0 > 12 / 100 then
             (if cb (Some 25, Running) then [(Some 25, Running)]
              else if clock env 3 - clock env 2 > 12 / 100 then
                (if cb (Some 75, Running) then [(Some 25, Running), (Some 75, Running)]
                 else [(Some 25, Running), (Some 75, Running), (Some 100, Finished)])
              else [(Some 25, Running), (Some 100, Finished)])
           else if clock env 2 - clock env 0 > 12 / 100 then
             (if cb (Some 75, Running) then [(Some 75, Running)]
              else [(Some 75, Running), (Some 100, Finished)])
           else [(Some 100, Finished)])"
proof -
  note d = four_lines_steps Let_def on_out_time_def on_progress_end_def deliver_def
    start_state_def int_facts percent_facts eval_nat_numeral
  show ?thesis
  proof (cases "clock env 1 - clock env 0 > 12 / 100")
    case g1: True
    show ?thesis
    proof (cases "cb (Some 25, Running)")
      case True
      with g1 show ?thesis
        by (simp add: d)
    next
      case r1: False
      show ?thesis
      proof (cases "clock env 3 - clock env 2 > 12 / 100")
        case g2: True
        show ?thesis
        proof (cases "cb (Some 75, Running)")
          case True
          with g1 r1 g2 show ?thesis
            by (simp add: d)
        next
          case False
          with g1 r1 g2 show ?thesis
            by (simp add: d)
        qed
      next
        case False
        with g1 r1 show ?thesis
          by (simp add: d)
      qed
    qed
  next
    case g1: False
    show ?thesis
    proof (cases "clock env 2 - clock env 0 > 12 / 100")
      case g2: True
      show ?thesis
      proof (cases "cb (Some 75, Running)")
        case True
        with g1 g2 show ?thesis
          by (simp add: d)
      next
        case False
        with g1 g2 show ?thesis
          by (simp add: d)
      qed
    next
      case False
      with g1 show ?thesis
        by (simp add: d)
    qed
  qed
qed

lemma delivered_no_callback: "delivered (feed env None st lines) = delivered st"
proof (induction lines arbitrary: st)
  case Nil
  show ?case by simp
next
  case (Cons raw rest)
  have "delivered (process_line env None st raw) = delivered st"
    by (simp add: process_line_def Let_def on_out_time_def on_progress_end_def)
  then show ?case
    by (simp add: Let_def Cons.IH)
qed

text \<open>
  C4, as amended. The percentage of an \<open>out_time_ms\<close> line is
  \<open>clamp(out_time_ms / duration_ms * 100, 0, 100)\<close>. Fed the lines \<open>duration_ms=10000\<close>,
  \<open>out_time_ms=2500\<close>, \<open>out_time_ms=7500\<close>, \<open>progress=end\<close> with a callback, the loop
  calls the callback with 25, 75 and 100 in that order exactly when the callback raises
  at neither 25 nor 75 and more than 0.12 seconds lie between the start and the first
  \<open>out_time_ms\<close> line and between the return of the first call and the second such
  line. In every other case the calls are the ones the theorem lists: an
  \<open>out_time_ms\<close> line that comes within 0.12 seconds of the last update (the start, or
  the return of the last call for such a line) makes no call, a call that raises is the
  last one, and the final 100 depends on the clock in no case. Without a callback
  nothing is delivered, whatever the lines. The loop does not order the events itself:
  the delivered percentages never fall when the stream is steady, that is the duration
  stays the same positive value, the \<open>out_time_ms\<close> values never fall and none follows
  \<open>progress=end\<close>. The events of \<open>run_ffmpeg_with_progress\<close> are those of the loop over
  the encoder's output.
\<close>

theorem progress_events:
  "(percent out_ms t = Some q \<longrightarrow> q = max 0 (min 100 (of_int out_ms / of_int t * 100)))
   \<and> delivered (feed env (Some cb) (start_state env)
          [''duration_ms=10000'', ''out_time_ms=2500'', ''out_time_ms=7500'', ''progress=end''])
        = (if clock env 1 - clock env 0 > 12 / 100 then
             (if cb (Some 25, Running) then [(Some 25, Running)]
              else if clock env 3 - clock env 2 > 12 / 100 then
                (if cb (Some 75, Running) then [(Some 25, Running), (Some 75, Running)]
                 else [(Some 25, Running), (Some 75, Running), (Some 100, Finished)])
              else [(Some 25, Running), (Some 100, Finished)])
           else if clock env 2 - clock env 0 > 12 / 100 then
             (if cb (Some 75, Running) then [(Some 75, Running)]
              else [(Some 75, Running), (Some 100, Finished)])
           else [(Some 100, Finished)])
   \<and> delivered (feed env None (start_state env) any_lines) = []
   \<and> (0 < D \<longrightarrow> steady D lo lines \<longrightarrow>
        rising (delivered (feed env' cb' (start_state env') lines)))
   \<and> fst (snd (run_ffmpeg_with_progress env' cmd cb' w))
        = (case popen env' cmd (disk w) of
             SpawnError \<Rightarrow> []
           | Exited out err rc f \<Rightarrow> delivered (feed env' cb' (start_state env') out))"
proof (intro conjI impI)
  assume "percent out_ms t = Some q"
  then show "q = max 0 (min 100 (of_int out_ms / of_int t * 100))"
    by (auto simp: percent_def Let_def split: if_splits)
next
  show "delivered (feed env (Some cb) (start_state env)
          [''duration_ms=10000'', ''out_time_ms=2500'', ''out_time_ms=7500'', ''progress=end''])
        = (if clock env 1 - clock env 0 > 12 / 100 then
             (if cb (Some 25, Running) then [(Some 25, Running)]
              else if clock env 3 - clock env 2 > 12 / 100 then
                (if cb (Some 75, Running) then [(Some 25, Running), (Some 75, Running)]
                 else [(Some 25, Running), (Some 75, Running), (Some 100, Finished)])
              else [(Some 25, Running), (Some 100, Finished)])
           else if clock env 2 - clock env 0 > 12 / 100 then
             (if cb (Some 75, Running) then [(Some 75, Running)]
              else [(Some 75, Running), (Some 100, Finished)])
           else [(Some 100, Finished)])"
    by (rule four_lines)
next
  show "delivered (feed env None (start_state env) any_lines) = []"
    by (simp add: delivered_no_callback start_state_def)
next
  assume "0 < D" "steady D lo lines"
  then show "rising (delivered (feed env' cb' (start_state env') lines))"
    using inv_start by (rule steady_feed)
next
  show "fst (snd (run_ffmpeg_with_progress env' cmd cb' w))
        = (case popen env' cmd (disk w) of
             SpawnError \<Rightarrow> []
           | Exited out err rc f \<Rightarrow> delivered (feed env' cb' (start_state env') out))"
    by (simp add: run_ffmpeg_with_progress_def Let_def split: process.splits)
qed

lemma steady_four_lines:
  "steady 10000 (Some 0)
     [''duration_ms=10000'', ''out_time_ms=2500'', ''out_time_ms=7500'', ''progress=end'']"
  by (simp add: line_facts int_facts Let_def)

theorem progress_events_witness:
  "percent 2500 10000 = Some 25
   \<and> clock calm_env 1 - clock calm_env 0 > 12 / 100
   \<and> clock calm_env 3 - clock calm_env 2 > 12 / 100
   \<and> \<not> no_raise (Some 25, Running) \<and> \<not> no_raise (Some 75, Running)
   \<and> (0::int) < 10000
   \<and> steady 10000 (Some 0)
        [''duration_ms=10000'', ''out_time_ms=2500'', ''out_time_ms=7500'', ''progress=end'']
   \<and> delivered (feed calm_env (Some no_raise) (start_state calm_env)
        [''duration_ms=10000'', ''out_time_ms=2500'', ''out_time_ms=7500'', ''progress=end''])
      = [(Some 25, Running), (Some 75, Running), (Some 100, Finished)]
   \<and> delivered (feed calm_env None (start_state calm_env)
        [''duration_ms=10000'', ''out_time_ms=2500'', ''out_time_ms=7500'', ''progress=end''])
      = []
   \<and> rising [(Some 25, Running), (Some 75, Running), (Some 100, Finished)]
   \<and> fst (snd (run_ffmpeg_with_progress calm_env [''ffmpeg''] (Some no_raise) (fresh clip_disk)))
      = [(Some 25, Running), (Some 75, Running), (Some 100, Finished)]"
proof -
  have c: "clock calm_env 1 - clock calm_env 0 > 12 / 100"
    "clock calm_env 3 - clock calm_env 2 > 12 / 100"
    by (simp_all add: calm_env_def)
  have n: "\<not> no_raise (Some 25, Running)" "\<not> no_raise (Some 75, Running)"
    by (simp_all add: no_raise_def)
  have p: "popen calm_env [''ffmpeg''] (disk (fresh clip_disk))
           = Exited [''duration_ms=10000'', ''out_time_ms=2500'', ''out_time_ms=7500'', ''progress=end'']
               [] 0 (clip_disk(tmp_path clip \<mapsto> ''new bytes''))"
    by (simp add: calm_env_def good_encoder_def fresh_def)
  note T = progress_events [of 2500 10000 25 calm_env no_raise
      "[''duration_ms=10000'', ''out_time_ms=2500'', ''out_time_ms=7500'', ''progress=end'']"
      10000 "Some 0"
      "[''duration_ms=10000'', ''out_time_ms=2500'', ''out_time_ms=7500'', ''progress=end'']"
      calm_env "Some no_raise" "[''ffmpeg'']" "fresh clip_disk"]
  have z: "(0::int) < 10000"
    by simp
  have A: "delivered (feed calm_env (Some no_raise) (start_state calm_env)
        [''duration_ms=10000'', ''out_time_ms=2500'', ''out_time_ms=7500'', ''progress=end''])
      = [(Some 25, Running), (Some 75, Running), (Some 100, Finished)]"
    using T [THEN conjunct2, THEN conjunct1] c n
    by (simp only: if_True if_False)
  note N = T [THEN conjunct2, THEN conjunct2, THEN conjunct1]
  note c3 = T [THEN conjunct2, THEN conjunct2, THEN conjunct2]
  have B: "rising [(Some 25, Running), (Some 75, Running), (Some 100, Finished)]"
    using c3 [THEN conjunct1, rule_format, OF z steady_four_lines]
    unfolding A .
  have C: "fst (snd (run_ffmpeg_with_progress calm_env [''ffmpeg''] (Some no_raise) (fresh clip_disk)))
      = [(Some 25, Running), (Some 75, Running), (Some 100, Finished)]"
    using c3 [THEN conjunct2]
    unfolding p process.case A .
  show ?thesis
    using percent_facts(1) c n z steady_four_lines A N B C
    by - (intro conjI; assumption)
qed

text \<open>
  C4 as stated fails: with no time between the lines only the final event is delivered,
  a callback that raises at 25 is called no more, and a stream whose \<open>out_time_ms\<close>
  falls delivers a falling percentage.
\<close>

theorem progress_events_counterexample:
  "delivered (feed frozen_env (Some no_raise) (start_state frozen_env)
      [''duration_ms=10000'', ''out_time_ms=2500'', ''out_time_ms=7500'', ''progress=end''])
     = [(Some 100, Finished)]
   \<and> delivered (feed calm_env (Some (\<lambda>ev. True)) (start_state calm_env)
      [''duration_ms=10000'', ''out_time_ms=2500'', ''out_time_ms=7500'', ''progress=end''])
     = [(Some 25, Running)]
   \<and> delivered (feed calm_env (Some no_raise) (start_state calm_env)
      [''duration_ms=10000'', ''out_time_ms=7500'', ''out_time_ms=2500''])
     = [(Some 75, Running), (Some 25, Running)]
   \<and> \<not> rising [(Some 75, Running), (Some 25, Running)]"
proof -
  have a: "delivered (feed frozen_env (Some no_raise) (start_state frozen_env)
      [''duration_ms=10000'', ''out_time_ms=2500'', ''out_time_ms=7500'', ''progress=end''])
     = [(Some 100, Finished)]"
    by (simp add: process_line_def line_facts int_facts percent_facts Let_def on_out_time_def
        on_progress_end_def start_state_def deliver_def no_raise_def frozen_env_def)
  have r: "delivered (feed calm_env (Some (\<lambda>ev. True)) (start_state calm_env)
      [''duration_ms=10000'', ''out_time_ms=2500'', ''out_time_ms=7500'', ''progress=end''])
     = [(Some 25, Running)]"
    by (simp add: process_line_def line_facts int_facts percent_facts Let_def on_out_time_def
        on_progress_end_def start_state_def deliver_def calm_env_def)
  have b: "delivered (feed calm_env (Some no_raise) (start_state calm_env)
      [''duration_ms=10000'', ''out_time_ms=7500'', ''out_time_ms=2500''])
     = [(Some 75, Running), (Some 25, Running)]"
    by (simp add: process_line_def line_facts int_facts percent_facts Let_def on_out_time_def
        start_state_def deliver_def no_raise_def calm_env_def)
  have c: "\<not> rising [(Some 75, Running), (Some 25, Running)]"
    by (simp add: rising_def pct_le_def)
  from a r b c show ?thesis by simp
qed

section \<open>Replacing the original\<close>

lemma stem_suffix: "stem p @ suffix p = name p"
  by (simp add: stem_def suffix_def split: option.splits)

lemma tmp_not_src: "tmp_path src \<noteq> src"
proof
  assume "tmp_path src = src"
  then have "name (tmp_path src) = name src"
    by simp
  then have "length (stem src @ ''.__tmp__'' @ suffix src) = length (stem src @ suffix src)"
    by (simp add: tmp_path_def with_name_def stem_suffix)
  then show False by simp
qed

lemma backup_not_src: "backup_path src \<noteq> src"
proof
  assume "backup_path src = src"
  then have "name (backup_path src) = name src"
    by simp
  then have "length (stem src @ ''.__bak__'' @ suffix src) = length (stem src @ suffix src)"
    by (simp add: backup_path_def with_name_def stem_suffix)
  then show False by simp
qed

lemma tmp_not_backup: "tmp_path src \<noteq> backup_path src"
proof
  assume "tmp_path src = backup_path src"
  then have "name (tmp_path src) = name (backup_path src)"
    by simp
  then show False
    by (simp add: tmp_path_def backup_path_def with_name_def)
qed

lemmas path_neqs = tmp_not_src backup_not_src tmp_not_backup
  tmp_not_src [symmetric] backup_not_src [symmetric] tmp_not_backup [symmetric]

lemma run_ok:
  assumes "popen env cmd (disk w) = Exited out err 0 f"
  shows "run_ffmpeg_with_progress env cmd cb w
         = ((True, OK), delivered (feed env cb (start_state env) out),
            \<lparr>disk = f, trace = trace w @ [(Popen cmd, False, f)]\<rparr>)"
  using assms by (simp add: run_ffmpeg_with_progress_def logged_def Let_def)

lemma genre_ok:
  assumes "exe \<noteq> []" "popen env (genre_cmd exe src g) (disk w) = Exited out err 0 f"
  shows "ffmpeg_write_genre_inplace env (Some exe) src g cb w
         = (case replace_original env src (tmp_path src)
                  \<lparr>disk = f, trace = trace w @ [(Popen (genre_cmd exe src g), False, f)]\<rparr> of
              (Some e, w2) \<Rightarrow> ((False, ReplaceFailed), delivered (feed env cb (start_state env) out), w2)
            | (None, w2) \<Rightarrow> ((True, OK), delivered (feed env cb (start_state env) out), w2))"
  using assms by (simp add: ffmpeg_write_genre_inplace_def run_ok Let_def)

text \<open>
  C9. Once the encoder has exited with code 0, the function asks whether a file exists
  at the backup path and, if so, deletes it, whatever it holds, before it renames
  anything: whenever a rename appears in the trace of a run that found a file at the
  backup path, the first three calls are the encoder, the \<open>exists\<close> test and the
  successful \<open>unlink\<close> of that file.
\<close>

theorem stale_backup_deleted:
  assumes "exe \<noteq> []"
    and "popen env (genre_cmd exe src g) f0 = Exited out err 0 f"
    and "f (backup_path src) \<noteq> None"
    and "\<exists>s \<in> set (trace (snd (snd (ffmpeg_write_genre_inplace env (Some exe) src g cb (fresh f0))))).
           is_rename (fst s)"
  shows "take 3 (trace (snd (snd (ffmpeg_write_genre_inplace env (Some exe) src g cb (fresh f0)))))
         = [(Popen (genre_cmd exe src g), False, f),
            (Exists (backup_path src), False, f),
            (Unlink (backup_path src), False, f(backup_path src := None))]"
proof -
  have p: "popen env (genre_cmd exe src g) (disk (fresh f0)) = Exited out err 0 f"
    using assms(2) by (simp add: fresh_def)
  show ?thesis
    using assms(3,4) unfolding genre_ok [OF assms(1) p]
    by (auto simp: replace_original_def sys_exists_def sys_unlink_def sys_rename_def logged_def
        fresh_def is_rename_def Let_def split: if_splits option.splits)
qed

lemma run_failed:
  assumes "popen env cmd (disk w) = Exited out err rc f" "rc \<noteq> 0"
  shows "run_ffmpeg_with_progress env cmd cb w
         = ((False, stderr_tail err), delivered (feed env cb (start_state env) out),
            \<lparr>disk = f, trace = trace w @ [(Popen cmd, False, f)]\<rparr>)"
  using assms by (simp add: run_ffmpeg_with_progress_def logged_def Let_def)

lemma run_spawn_error:
  assumes "popen env cmd (disk w) = SpawnError"
  shows "run_ffmpeg_with_progress env cmd cb w
         = ((False, SpawnFailed), [], \<lparr>disk = disk w, trace = trace w @ [(Popen cmd, True, disk w)]\<rparr>)"
  using assms by (simp add: run_ffmpeg_with_progress_def logged_def Let_def)

lemma genre_failed:
  assumes "exe \<noteq> []" "popen env (genre_cmd exe src g) (disk w) = Exited out err rc f" "rc \<noteq> 0"
  shows "ffmpeg_write_genre_inplace env (Some exe) src g cb w
         = ((False, stderr_tail err), delivered (feed env cb (start_state env) out),
            cleanup_tmp env (tmp_path src)
              \<lparr>disk = f, trace = trace w @ [(Popen (genre_cmd exe src g), False, f)]\<rparr>)"
  using assms by (simp add: ffmpeg_write_genre_inplace_def run_failed Let_def)

lemma genre_spawn_error:
  assumes "exe \<noteq> []" "popen env (genre_cmd exe src g) (disk w) = SpawnError"
  shows "ffmpeg_write_genre_inplace env (Some exe) src g cb w
         = ((False, SpawnFailed), [],
            cleanup_tmp env (tmp_path src)
              \<lparr>disk = disk w, trace = trace w @ [(Popen (genre_cmd exe src g), True, disk w)]\<rparr>)"
  using assms by (simp add: ffmpeg_write_genre_inplace_def run_spawn_error Let_def)

lemma no_rollback_general:
  assumes "exe \<noteq> []"
    and "popen env (genre_cmd exe src g) f0 = Exited out err 0 f"
    and "(Rename (tmp_path src) src, True, h)
           \<in> set (trace (snd (snd (ffmpeg_write_genre_inplace env (Some exe) src g cb (fresh f0)))))"
  shows "fst (ffmpeg_write_genre_inplace env (Some exe) src g cb (fresh f0)) = (False, ReplaceFailed)"
    and "last (trace (snd (snd (ffmpeg_write_genre_inplace env (Some exe) src g cb (fresh f0)))))
           = (Rename (tmp_path src) src, True, h)"
    and "disk (snd (snd (ffmpeg_write_genre_inplace env (Some exe) src g cb (fresh f0)))) = h"
    and "h src = None" and "h (backup_path src) = f src" and "f src \<noteq> None"
    and "\<forall>s \<in> set (trace (snd (snd (ffmpeg_write_genre_inplace env (Some exe) src g cb (fresh f0))))).
           fst s \<noteq> Rename (backup_path src) src"
proof -
  have p: "popen env (genre_cmd exe src g) (disk (fresh f0)) = Exited out err 0 f"
    using assms(2) by (simp add: fresh_def)
  note u = replace_original_def sys_exists_def sys_unlink_def sys_rename_def logged_def
    fresh_def Let_def
  show "fst (ffmpeg_write_genre_inplace env (Some exe) src g cb (fresh f0)) = (False, ReplaceFailed)"
    using assms(3) unfolding genre_ok [OF assms(1) p]
    by (auto simp: u path_neqs split: if_splits option.splits)
  show "last (trace (snd (snd (ffmpeg_write_genre_inplace env (Some exe) src g cb (fresh f0)))))
           = (Rename (tmp_path src) src, True, h)"
    using assms(3) unfolding genre_ok [OF assms(1) p]
    by (auto simp: u path_neqs split: if_splits option.splits)
  show "disk (snd (snd (ffmpeg_write_genre_inplace env (Some exe) src g cb (fresh f0)))) = h"
    using assms(3) unfolding genre_ok [OF assms(1) p]
    by (auto simp: u path_neqs split: if_splits option.splits)
  show "h src = None"
    using assms(3) unfolding genre_ok [OF assms(1) p]
    by (auto simp: u path_neqs split: if_splits option.splits)
  show "h (backup_path src) = f src"
    using assms(3) unfolding genre_ok [OF assms(1) p]
    by (auto simp: u path_neqs split: if_splits option.splits)
  show "f src \<noteq> None"
    using assms(3) unfolding genre_ok [OF assms(1) p]
    by (auto simp: u path_neqs split: if_splits option.splits)
  show "\<forall>s \<in> set (trace (snd (snd (ffmpeg_write_genre_inplace env (Some exe) src g cb (fresh f0))))).
           fst s \<noteq> Rename (backup_path src) src"
    using assms(3) unfolding genre_ok [OF assms(1) p]
    by (auto simp: u path_neqs split: if_splits option.splits)
qed

text \<open>
  C1, as amended. When the second rename, of the temporary file onto the original path,
  raises after the original was renamed to its backup name, the function reports the
  failure and does nothing else: the failed rename is the last call it makes, no rename
  of the backup back to the original path is attempted, the original path is left
  without a file and the original's bytes stay at the backup path.
\<close>

theorem no_rollback:
  assumes "exe \<noteq> []"
    and "popen env (genre_cmd exe src g) f0 = Exited out err 0 f"
    and "(Rename (tmp_path src) src, True, h)
           \<in> set (trace (snd (snd (ffmpeg_write_genre_inplace env (Some exe) src g cb (fresh f0)))))"
  shows "fst (ffmpeg_write_genre_inplace env (Some exe) src g cb (fresh f0)) = (False, ReplaceFailed)
    \<and> last (trace (snd (snd (ffmpeg_write_genre_inplace env (Some exe) src g cb (fresh f0)))))
           = (Rename (tmp_path src) src, True, h)
    \<and> disk (snd (snd (ffmpeg_write_genre_inplace env (Some exe) src g cb (fresh f0)))) = h
    \<and> h src = None \<and> h (backup_path src) = f src \<and> f src \<noteq> None
    \<and> (\<forall>s \<in> set (trace (snd (snd (ffmpeg_write_genre_inplace env (Some exe) src g cb (fresh f0))))).
           fst s \<noteq> Rename (backup_path src) src)"
  using no_rollback_general [OF assms] by blast

lemma good_encoder_run:
  "popen calm_env cmd f = Exited [''duration_ms=10000'', ''out_time_ms=2500'', ''out_time_ms=7500'', ''progress=end'']
       [] 0 (f(tmp_path clip \<mapsto> ''new bytes''))"
  "popen locked_env cmd f = Exited [''duration_ms=10000'', ''out_time_ms=2500'', ''out_time_ms=7500'', ''progress=end'']
       [] 0 (f(tmp_path clip \<mapsto> ''new bytes''))"
  "popen busy_env cmd f = Exited [''duration_ms=10000'', ''out_time_ms=2500'', ''out_time_ms=7500'', ''progress=end'']
       [] 0 (f(tmp_path clip \<mapsto> ''new bytes''))"
  by (simp_all add: calm_env_def locked_env_def busy_env_def good_encoder_def)

lemma locked_run:
  "fst (ffmpeg_write_genre_inplace locked_env (Some ''ffmpeg'') clip ''Rock'' None (fresh clip_disk))
     = (False, ReplaceFailed)"
  "trace (snd (snd (ffmpeg_write_genre_inplace locked_env (Some ''ffmpeg'') clip ''Rock'' None
                     (fresh clip_disk))))
     = [(Popen (genre_cmd ''ffmpeg'' clip ''Rock''), False, clip_disk(tmp_path clip \<mapsto> ''new bytes'')),
        (Exists (backup_path clip), False, clip_disk(tmp_path clip \<mapsto> ''new bytes'')),
        (Rename clip (backup_path clip), False,
           [tmp_path clip \<mapsto> ''new bytes'', backup_path clip \<mapsto> ''old bytes'']),
        (Rename (tmp_path clip) clip, True,
           [tmp_path clip \<mapsto> ''new bytes'', backup_path clip \<mapsto> ''old bytes''])]"
  "disk (snd (snd (ffmpeg_write_genre_inplace locked_env (Some ''ffmpeg'') clip ''Rock'' None
                     (fresh clip_disk))))
     = [tmp_path clip \<mapsto> ''new bytes'', backup_path clip \<mapsto> ''old bytes'']"
proof -
  have p: "popen locked_env (genre_cmd ''ffmpeg'' clip ''Rock'') (disk (fresh clip_disk))
           = Exited [''duration_ms=10000'', ''out_time_ms=2500'', ''out_time_ms=7500'', ''progress=end'']
               [] 0 (clip_disk(tmp_path clip \<mapsto> ''new bytes''))"
    by (simp add: good_encoder_run fresh_def)
  have r: "refused locked_env c f = (c = Rename (tmp_path clip) clip)" for c f
    by (simp add: locked_env_def)
  have m: "(clip_disk(tmp_path clip \<mapsto> ''new bytes''))(clip := None, backup_path clip \<mapsto> ''old bytes'')
           = [tmp_path clip \<mapsto> ''new bytes'', backup_path clip \<mapsto> ''old bytes'']"
    by (auto simp: clip_disk_def path_neqs)
  note u = replace_original_def sys_exists_def sys_unlink_def sys_rename_def logged_def
    fresh_def Let_def
  have e: "''ffmpeg'' \<noteq> []" by simp
  show "fst (ffmpeg_write_genre_inplace locked_env (Some ''ffmpeg'') clip ''Rock'' None (fresh clip_disk))
     = (False, ReplaceFailed)"
    unfolding genre_ok [OF e p] by (simp add: u r path_neqs clip_disk_def)
  show "trace (snd (snd (ffmpeg_write_genre_inplace locked_env (Some ''ffmpeg'') clip ''Rock'' None
                     (fresh clip_disk))))
     = [(Popen (genre_cmd ''ffmpeg'' clip ''Rock''), False, clip_disk(tmp_path clip \<mapsto> ''new bytes'')),
        (Exists (backup_path clip), False, clip_disk(tmp_path clip \<mapsto> ''new bytes'')),
        (Rename clip (backup_path clip), False,
           [tmp_path clip \<mapsto> ''new bytes'', backup_path clip \<mapsto> ''old bytes'']),
        (Rename (tmp_path clip) clip, True,
           [tmp_path clip \<mapsto> ''new bytes'', backup_path clip \<mapsto> ''old bytes''])]"
    unfolding genre_ok [OF e p] m [symmetric] by (simp add: u r path_neqs clip_disk_def)
  show "disk (snd (snd (ffmpeg_write_genre_inplace locked_env (Some ''ffmpeg'') clip ''Rock'' None
                     (fresh clip_disk))))
     = [tmp_path clip \<mapsto> ''new bytes'', backup_path clip \<mapsto> ''old bytes'']"
    unfolding genre_ok [OF e p] m [symmetric] by (simp add: u r path_neqs clip_disk_def)
qed

theorem no_rollback_witness:
  "''ffmpeg'' \<noteq> []
   \<and> popen locked_env (genre_cmd ''ffmpeg'' clip ''Rock'') clip_disk
      = Exited [''duration_ms=10000'', ''out_time_ms=2500'', ''out_time_ms=7500'', ''progress=end'']
          [] 0 (clip_disk(tmp_path clip \<mapsto> ''new bytes''))
   \<and> (Rename (tmp_path clip) clip, True,
        [tmp_path clip \<mapsto> ''new bytes'', backup_path clip \<mapsto> ''old bytes''])
      \<in> set (trace (snd (snd (ffmpeg_write_genre_inplace locked_env (Some ''ffmpeg'') clip ''Rock'' None
                                (fresh clip_disk)))))
   \<and> fst (ffmpeg_write_genre_inplace locked_env (Some ''ffmpeg'') clip ''Rock'' None (fresh clip_disk))
      = (False, ReplaceFailed)
   \<and> Rename (backup_path clip) clip
        \<notin> fst ` set (trace (snd (snd (ffmpeg_write_genre_inplace locked_env (Some ''ffmpeg'') clip
                                           ''Rock'' None (fresh clip_disk)))))"
proof -
  have e: "''ffmpeg'' \<noteq> []" by simp
  have p: "popen locked_env (genre_cmd ''ffmpeg'' clip ''Rock'') clip_disk
      = Exited [''duration_ms=10000'', ''out_time_ms=2500'', ''out_time_ms=7500'', ''progress=end'']
          [] 0 (clip_disk(tmp_path clip \<mapsto> ''new bytes''))"
    by (rule good_encoder_run)
  have t: "(Rename (tmp_path clip) clip, True,
        [tmp_path clip \<mapsto> ''new bytes'', backup_path clip \<mapsto> ''old bytes''])
      \<in> set (trace (snd (snd (ffmpeg_write_genre_inplace locked_env (Some ''ffmpeg'') clip ''Rock'' None
                                (fresh clip_disk)))))"
    unfolding locked_run by simp
  from no_rollback [OF e p t] e p t show ?thesis
    by fastforce
qed

text \<open>
  C1 as stated fails: when the operating system refuses the second rename, the function
  returns its failure at once; the trace ends with the refused call, the clip's path
  holds no file and the old bytes lie at the backup path.
\<close>

theorem no_rollback_counterexample:
  "fst (ffmpeg_write_genre_inplace locked_env (Some ''ffmpeg'') clip ''Rock'' None (fresh clip_disk))
     = (False, ReplaceFailed)
   \<and> map fst (trace (snd (snd (ffmpeg_write_genre_inplace locked_env (Some ''ffmpeg'') clip ''Rock''
                                  None (fresh clip_disk)))))
     = [Popen (genre_cmd ''ffmpeg'' clip ''Rock''), Exists (backup_path clip),
        Rename clip (backup_path clip), Rename (tmp_path clip) clip]
   \<and> disk (snd (snd (ffmpeg_write_genre_inplace locked_env (Some ''ffmpeg'') clip ''Rock'' None
                        (fresh clip_disk)))) clip = None
   \<and> disk (snd (snd (ffmpeg_write_genre_inplace locked_env (Some ''ffmpeg'') clip ''Rock'' None
                        (fresh clip_disk)))) (backup_path clip) = Some ''old bytes''"
  unfolding locked_run by (simp add: path_neqs)

text \<open>
  C2, as amended. While \<open>ffmpeg_write_genre_inplace\<close> runs, with an encoder that leaves
  the original file as it was, the original path holds after every call either the
  original bytes, or the bytes the encoder left in the temporary file after exit code 0,
  or no file at all: that is the case from the first rename until the second succeeds,
  and then the original bytes are at the backup path. If the encoder cannot be spawned
  the original path is not touched.
\<close>

theorem target_states:
  "(exe \<noteq> [] \<longrightarrow> popen env (genre_cmd exe src g) f0 = SpawnError \<longrightarrow>
      (\<forall>s \<in> set (trace (snd (snd (ffmpeg_write_genre_inplace env (Some exe) src g cb (fresh f0))))).
         snd (snd s) src = f0 src))
   \<and> (exe \<noteq> [] \<longrightarrow> popen env (genre_cmd exe src g) f0 = Exited out err rc f \<longrightarrow>
        f src = Some orig \<longrightarrow>
      (\<forall>s \<in> set (trace (snd (snd (ffmpeg_write_genre_inplace env (Some exe) src g cb (fresh f0))))).
         snd (snd s) src = Some orig
         \<or> (snd (snd s) src = None \<and> snd (snd s) (backup_path src) = Some orig)
         \<or> (rc = 0 \<and> f (tmp_path src) \<noteq> None \<and> snd (snd s) src = f (tmp_path src))))"
proof (intro conjI impI)
  assume e: "exe \<noteq> []" and "popen env (genre_cmd exe src g) f0 = SpawnError"
  then have p: "popen env (genre_cmd exe src g) (disk (fresh f0)) = SpawnError"
    by (simp add: fresh_def)
  show "\<forall>s \<in> set (trace (snd (snd (ffmpeg_write_genre_inplace env (Some exe) src g cb (fresh f0))))).
         snd (snd s) src = f0 src"
    unfolding genre_spawn_error [OF e p]
    by (auto simp: cleanup_tmp_def sys_exists_def sys_unlink_def logged_def fresh_def path_neqs
        split: if_splits bool.splits)
next
  assume e: "exe \<noteq> []" and "popen env (genre_cmd exe src g) f0 = Exited out err rc f"
    and o: "f src = Some orig"
  then have p: "popen env (genre_cmd exe src g) (disk (fresh f0)) = Exited out err rc f"
    by (simp add: fresh_def)
  show "\<forall>s \<in> set (trace (snd (snd (ffmpeg_write_genre_inplace env (Some exe) src g cb (fresh f0))))).
         snd (snd s) src = Some orig
         \<or> (snd (snd s) src = None \<and> snd (snd s) (backup_path src) = Some orig)
         \<or> (rc = 0 \<and> f (tmp_path src) \<noteq> None \<and> snd (snd s) src = f (tmp_path src))"
  proof (cases "rc = 0")
    case True
    with p have p0: "popen env (genre_cmd exe src g) (disk (fresh f0)) = Exited out err 0 f"
      by simp
    show ?thesis
      using o True unfolding genre_ok [OF e p0]
      by (auto simp: replace_original_def sys_exists_def sys_unlink_def sys_rename_def logged_def
          fresh_def Let_def path_neqs split: if_splits option.splits)
  next
    case False
    show ?thesis
      using o unfolding genre_failed [OF e p False]
      by (auto simp: cleanup_tmp_def sys_exists_def sys_unlink_def logged_def fresh_def path_neqs
          split: if_splits bool.splits)
  qed
qed

lemma calm_run:
  "fst (ffmpeg_write_genre_inplace calm_env (Some ''ffmpeg'') clip ''Rock'' None (fresh clip_disk))
     = (True, OK)"
  "trace (snd (snd (ffmpeg_write_genre_inplace calm_env (Some ''ffmpeg'') clip ''Rock'' None
                     (fresh clip_disk))))
     = [(Popen (genre_cmd ''ffmpeg'' clip ''Rock''), False, clip_disk(tmp_path clip \<mapsto> ''new bytes'')),
        (Exists (backup_path clip), False, clip_disk(tmp_path clip \<mapsto> ''new bytes'')),
        (Rename clip (backup_path clip), False,
           [tmp_path clip \<mapsto> ''new bytes'', backup_path clip \<mapsto> ''old bytes'']),
        (Rename (tmp_path clip) clip, False,
           [backup_path clip \<mapsto> ''old bytes'', clip \<mapsto> ''new bytes'']),
        (Unlink (backup_path clip), False, [clip \<mapsto> ''new bytes''])]"
proof -
  have p: "popen calm_env (genre_cmd ''ffmpeg'' clip ''Rock'') (disk (fresh clip_disk))
           = Exited [''duration_ms=10000'', ''out_time_ms=2500'', ''out_time_ms=7500'', ''progress=end'']
               [] 0 (clip_disk(tmp_path clip \<mapsto> ''new bytes''))"
    by (simp add: good_encoder_run fresh_def)
  have r: "refused calm_env c f = False" "windows calm_env = False" for c f
    by (simp_all add: calm_env_def)
  have m1: "(clip_disk(tmp_path clip \<mapsto> ''new bytes''))(clip := None, backup_path clip \<mapsto> ''old bytes'')
           = [tmp_path clip \<mapsto> ''new bytes'', backup_path clip \<mapsto> ''old bytes'']"
    by (auto simp: clip_disk_def path_neqs)
  have m2: "[tmp_path clip \<mapsto> ''new bytes'', backup_path clip \<mapsto> ''old bytes'']
              (tmp_path clip := None, clip \<mapsto> ''new bytes'')
           = [backup_path clip \<mapsto> ''old bytes'', clip \<mapsto> ''new bytes'']"
    by (auto simp: path_neqs)
  have m3: "[backup_path clip \<mapsto> ''old bytes'', clip \<mapsto> ''new bytes''](backup_path clip := None)
           = [clip \<mapsto> ''new bytes'']"
    by (auto simp: path_neqs)
  note u = replace_original_def sys_exists_def sys_unlink_def sys_rename_def logged_def
    fresh_def Let_def
  have e: "''ffmpeg'' \<noteq> []" by simp
  show "fst (ffmpeg_write_genre_inplace calm_env (Some ''ffmpeg'') clip ''Rock'' None (fresh clip_disk))
     = (True, OK)"
    unfolding genre_ok [OF e p] by (simp add: u r path_neqs clip_disk_def)
  show "trace (snd (snd (ffmpeg_write_genre_inplace calm_env (Some ''ffmpeg'') clip ''Rock'' None
                     (fresh clip_disk))))
     = [(Popen (genre_cmd ''ffmpeg'' clip ''Rock''), False, clip_disk(tmp_path clip \<mapsto> ''new bytes'')),
        (Exists (backup_path clip), False, clip_disk(tmp_path clip \<mapsto> ''new bytes'')),
        (Rename clip (backup_path clip), False,
           [tmp_path clip \<mapsto> ''new bytes'', backup_path clip \<mapsto> ''old bytes'']),
        (Rename (tmp_path clip) clip, False,
           [backup_path clip \<mapsto> ''old bytes'', clip \<mapsto> ''new bytes'']),
        (Unlink (backup_path clip), False, [clip \<mapsto> ''new bytes''])]"
    unfolding genre_ok [OF e p] m3 [symmetric] m2 [symmetric] m1 [symmetric]
    by (simp add: u r path_neqs clip_disk_def)
qed

theorem target_states_witness:
  "''ffmpeg'' \<noteq> []
   \<and> popen calm_env (genre_cmd ''ffmpeg'' clip ''Rock'') clip_disk
      = Exited [''duration_ms=10000'', ''out_time_ms=2500'', ''out_time_ms=7500'', ''progress=end'']
          [] 0 (clip_disk(tmp_path clip \<mapsto> ''new bytes''))
   \<and> (clip_disk(tmp_path clip \<mapsto> ''new bytes'')) clip = Some ''old bytes''
   \<and> length (trace (snd (snd (ffmpeg_write_genre_inplace calm_env (Some ''ffmpeg'') clip ''Rock'' None
                                 (fresh clip_disk))))) = 5
   \<and> list_all
        (\<lambda>s. snd (snd s) clip = Some ''old bytes''
           \<or> (snd (snd s) clip = None \<and> snd (snd s) (backup_path clip) = Some ''old bytes'')
           \<or> snd (snd s) clip = Some ''new bytes'')
        (trace (snd (snd (ffmpeg_write_genre_inplace calm_env (Some ''ffmpeg'') clip ''Rock''
                            None (fresh clip_disk)))))"
proof -
  have e: "''ffmpeg'' \<noteq> []" by simp
  have p: "popen calm_env (genre_cmd ''ffmpeg'' clip ''Rock'') clip_disk
      = Exited [''duration_ms=10000'', ''out_time_ms=2500'', ''out_time_ms=7500'', ''progress=end'']
          [] 0 (clip_disk(tmp_path clip \<mapsto> ''new bytes''))"
    by (rule good_encoder_run)
  have o: "(clip_disk(tmp_path clip \<mapsto> ''new bytes'')) clip = Some ''old bytes''"
    by (simp add: clip_disk_def path_neqs)
  have n: "(clip_disk(tmp_path clip \<mapsto> ''new bytes'')) (tmp_path clip) = Some ''new bytes''"
    by simp
  have l: "length (trace (snd (snd (ffmpeg_write_genre_inplace calm_env (Some ''ffmpeg'') clip ''Rock''
                                      None (fresh clip_disk))))) = 5"
    unfolding calm_run by simp
  from target_states [THEN conjunct2, rule_format, OF e p o, of _ None] n
  have "\<forall>s \<in> set (trace (snd (snd (ffmpeg_write_genre_inplace calm_env (Some ''ffmpeg'') clip ''Rock''
                                     None (fresh clip_disk))))).
         snd (snd s) clip = Some ''old bytes''
         \<or> (snd (snd s) clip = None \<and> snd (snd s) (backup_path clip) = Some ''old bytes'')
         \<or> snd (snd s) clip = Some ''new bytes''"
    by fastforce
  then have "list_all
        (\<lambda>s. snd (snd s) clip = Some ''old bytes''
           \<or> (snd (snd s) clip = None \<and> snd (snd s) (backup_path clip) = Some ''old bytes'')
           \<or> snd (snd s) clip = Some ''new bytes'')
        (trace (snd (snd (ffmpeg_write_genre_inplace calm_env (Some ''ffmpeg'') clip ''Rock''
                            None (fresh clip_disk)))))"
    by (simp add: list_all_iff)
  with e p o l show ?thesis
    by blast
qed

text \<open>
  C2 as stated fails: in a run where every call succeeds, the original path holds no
  file once the original has been renamed to the backup name.
\<close>

theorem target_states_counterexample:
  "fst (ffmpeg_write_genre_inplace calm_env (Some ''ffmpeg'') clip ''Rock'' None (fresh clip_disk))
     = (True, OK)
   \<and> fst (trace (snd (snd (ffmpeg_write_genre_inplace calm_env (Some ''ffmpeg'') clip ''Rock'' None
                             (fresh clip_disk)))) ! 2)
     = Rename clip (backup_path clip)
   \<and> snd (snd (trace (snd (snd (ffmpeg_write_genre_inplace calm_env (Some ''ffmpeg'') clip ''Rock''
                                  None (fresh clip_disk)))) ! 2)) clip
     = None"
  unfolding calm_run by (simp add: path_neqs)

text \<open>
  C6, as amended. When the encoder cannot be spawned or exits with a code other than 0,
  the function tries to delete the temporary file, and no file is left at the temporary
  path unless the operating system refuses the \<open>exists\<close> or the \<open>unlink\<close> call. When
  the encoder exits with code 0, the function never calls \<open>unlink\<close> on the temporary
  path. So when the replacement sequence fails, the temporary file is not deleted: the
  temporary path holds what the encoder left there, unless the second rename had
  already moved the file to the original path (then the failure is that of the last
  \<open>unlink\<close> of the backup, and the original path holds what the encoder wrote).
\<close>

theorem tmp_cleanup:
  "(exe \<noteq> [] \<longrightarrow> popen env1 (genre_cmd exe src g) f0 = SpawnError \<longrightarrow>
      \<not> refused env1 (Exists (tmp_path src)) f0 \<longrightarrow> \<not> refused env1 (Unlink (tmp_path src)) f0 \<longrightarrow>
      \<not> fst (fst (ffmpeg_write_genre_inplace env1 (Some exe) src g cb (fresh f0)))
      \<and> disk (snd (snd (ffmpeg_write_genre_inplace env1 (Some exe) src g cb (fresh f0))))
           (tmp_path src) = None)
   \<and> (exe \<noteq> [] \<longrightarrow> popen env2 (genre_cmd exe src g) f0 = Exited out err rc f \<longrightarrow> rc \<noteq> 0 \<longrightarrow>
      \<not> refused env2 (Exists (tmp_path src)) f \<longrightarrow> \<not> refused env2 (Unlink (tmp_path src)) f \<longrightarrow>
      \<not> fst (fst (ffmpeg_write_genre_inplace env2 (Some exe) src g cb (fresh f0)))
      \<and> disk (snd (snd (ffmpeg_write_genre_inplace env2 (Some exe) src g cb (fresh f0))))
           (tmp_path src) = None)
   \<and> (exe \<noteq> [] \<longrightarrow> popen env3 (genre_cmd exe src g) f0 = Exited out' err' 0 f' \<longrightarrow>
      \<not> fst (fst (ffmpeg_write_genre_inplace env3 (Some exe) src g cb (fresh f0))) \<longrightarrow>
      disk (snd (snd (ffmpeg_write_genre_inplace env3 (Some exe) src g cb (fresh f0)))) (tmp_path src)
        = f' (tmp_path src)
      \<or> (disk (snd (snd (ffmpeg_write_genre_inplace env3 (Some exe) src g cb (fresh f0))))
            (tmp_path src) = None
         \<and> f' (tmp_path src) \<noteq> None
         \<and> disk (snd (snd (ffmpeg_write_genre_inplace env3 (Some exe) src g cb (fresh f0)))) src
            = f' (tmp_path src)))
   \<and> (exe \<noteq> [] \<longrightarrow> popen env3 (genre_cmd exe src g) f0 = Exited out' err' 0 f' \<longrightarrow>
      Unlink (tmp_path src)
        \<notin> fst ` set (trace (snd (snd (ffmpeg_write_genre_inplace env3 (Some exe) src g cb
                                      (fresh f0))))))"
proof (intro conjI impI)
  assume e: "exe \<noteq> []" and "popen env1 (genre_cmd exe src g) f0 = SpawnError"
    and r: "\<not> refused env1 (Exists (tmp_path src)) f0" "\<not> refused env1 (Unlink (tmp_path src)) f0"
  then have p: "popen env1 (genre_cmd exe src g) (disk (fresh f0)) = SpawnError"
    by (simp add: fresh_def)
  show "\<not> fst (fst (ffmpeg_write_genre_inplace env1 (Some exe) src g cb (fresh f0)))"
    unfolding genre_spawn_error [OF e p] by simp
  show "disk (snd (snd (ffmpeg_write_genre_inplace env1 (Some exe) src g cb (fresh f0))))
           (tmp_path src) = None"
    using r unfolding genre_spawn_error [OF e p]
    by (auto simp: cleanup_tmp_def sys_exists_def sys_unlink_def logged_def fresh_def
        split: if_splits bool.splits)
next
  assume e: "exe \<noteq> []" and "popen env2 (genre_cmd exe src g) f0 = Exited out err rc f"
    and n: "rc \<noteq> 0"
    and r: "\<not> refused env2 (Exists (tmp_path src)) f" "\<not> refused env2 (Unlink (tmp_path src)) f"
  then have p: "popen env2 (genre_cmd exe src g) (disk (fresh f0)) = Exited out err rc f"
    by (simp add: fresh_def)
  show "\<not> fst (fst (ffmpeg_write_genre_inplace env2 (Some exe) src g cb (fresh f0)))"
    unfolding genre_failed [OF e p n] by simp
  show "disk (snd (snd (ffmpeg_write_genre_inplace env2 (Some exe) src g cb (fresh f0))))
           (tmp_path src) = None"
    using r unfolding genre_failed [OF e p n]
    by (auto simp: cleanup_tmp_def sys_exists_def sys_unlink_def logged_def fresh_def
        split: if_splits bool.splits)
next
  assume e: "exe \<noteq> []" and "popen env3 (genre_cmd exe src g) f0 = Exited out' err' 0 f'"
    and n: "\<not> fst (fst (ffmpeg_write_genre_inplace env3 (Some exe) src g cb (fresh f0)))"
  then have p: "popen env3 (genre_cmd exe src g) (disk (fresh f0)) = Exited out' err' 0 f'"
    by (simp add: fresh_def)
  show "disk (snd (snd (ffmpeg_write_genre_inplace env3 (Some exe) src g cb (fresh f0)))) (tmp_path src)
        = f' (tmp_path src)
      \<or> (disk (snd (snd (ffmpeg_write_genre_inplace env3 (Some exe) src g cb (fresh f0))))
            (tmp_path src) = None
         \<and> f' (tmp_path src) \<noteq> None
         \<and> disk (snd (snd (ffmpeg_write_genre_inplace env3 (Some exe) src g cb (fresh f0)))) src
            = f' (tmp_path src))"
    using n unfolding genre_ok [OF e p]
    by (auto simp: replace_original_def sys_exists_def sys_unlink_def sys_rename_def logged_def
        fresh_def Let_def path_neqs split: if_splits option.splits)
next
  assume e: "exe \<noteq> []" and "popen env3 (genre_cmd exe src g) f0 = Exited out' err' 0 f'"
  then have p: "popen env3 (genre_cmd exe src g) (disk (fresh f0)) = Exited out' err' 0 f'"
    by (simp add: fresh_def)
  show "Unlink (tmp_path src)
        \<notin> fst ` set (trace (snd (snd (ffmpeg_write_genre_inplace env3 (Some exe) src g cb
                                      (fresh f0)))))"
    unfolding genre_ok [OF e p]
    by (auto simp: replace_original_def sys_exists_def sys_unlink_def sys_rename_def logged_def
        fresh_def Let_def path_neqs split: if_splits option.splits)
qed

lemma busy_run:
  "fst (ffmpeg_write_genre_inplace busy_env (Some ''ffmpeg'') clip ''Rock'' None (fresh clip_disk))
     = (False, ReplaceFailed)"
  "disk (snd (snd (ffmpeg_write_genre_inplace busy_env (Some ''ffmpeg'') clip ''Rock'' None
                    (fresh clip_disk))))
     = clip_disk(tmp_path clip \<mapsto> ''new bytes'')"
  "map fst (trace (snd (snd (ffmpeg_write_genre_inplace busy_env (Some ''ffmpeg'') clip ''Rock'' None
                    (fresh clip_disk)))))
     = [Popen (genre_cmd ''ffmpeg'' clip ''Rock''), Exists (backup_path clip),
        Rename clip (backup_path clip)]"
proof -
  have p: "popen busy_env (genre_cmd ''ffmpeg'' clip ''Rock'') (disk (fresh clip_disk))
           = Exited [''duration_ms=10000'', ''out_time_ms=2500'', ''out_time_ms=7500'', ''progress=end'']
               [] 0 (clip_disk(tmp_path clip \<mapsto> ''new bytes''))"
    by (simp add: good_encoder_run fresh_def)
  have r: "refused busy_env c f = (c = Rename clip (backup_path clip))" for c f
    by (simp add: busy_env_def)
  note u = replace_original_def sys_exists_def sys_unlink_def sys_rename_def logged_def
    fresh_def Let_def
  have e: "''ffmpeg'' \<noteq> []" by simp
  show "fst (ffmpeg_write_genre_inplace busy_env (Some ''ffmpeg'') clip ''Rock'' None (fresh clip_disk))
     = (False, ReplaceFailed)"
    unfolding genre_ok [OF e p] by (simp add: u r path_neqs clip_disk_def)
  show "disk (snd (snd (ffmpeg_write_genre_inplace busy_env (Some ''ffmpeg'') clip ''Rock'' None
                    (fresh clip_disk))))
     = clip_disk(tmp_path clip \<mapsto> ''new bytes'')"
    unfolding genre_ok [OF e p] by (simp add: u r path_neqs clip_disk_def)
  show "map fst (trace (snd (snd (ffmpeg_write_genre_inplace busy_env (Some ''ffmpeg'') clip ''Rock'' None
                    (fresh clip_disk)))))
     = [Popen (genre_cmd ''ffmpeg'' clip ''Rock''), Exists (backup_path clip),
        Rename clip (backup_path clip)]"
    unfolding genre_ok [OF e p] by (simp add: u r path_neqs clip_disk_def)
qed

theorem tmp_cleanup_witness:
  "''ffmpeg'' \<noteq> []
   \<and> popen absent_env (genre_cmd ''ffmpeg'' clip ''Rock'') clip_disk = SpawnError
   \<and> \<not> refused absent_env (Exists (tmp_path clip)) clip_disk
   \<and> \<not> refused absent_env (Unlink (tmp_path clip)) clip_disk
   \<and> popen failing_env (genre_cmd ''ffmpeg'' clip ''Rock'') clip_disk
      = Exited [''duration_ms=10000''] [''Invalid data found''] 1 (clip_disk(tmp_path clip \<mapsto> ''partial''))
   \<and> (1::int) \<noteq> 0
   \<and> \<not> refused failing_env (Exists (tmp_path clip)) (clip_disk(tmp_path clip \<mapsto> ''partial''))
   \<and> \<not> refused failing_env (Unlink (tmp_path clip)) (clip_disk(tmp_path clip \<mapsto> ''partial''))
   \<and> popen busy_env (genre_cmd ''ffmpeg'' clip ''Rock'') clip_disk
      = Exited [''duration_ms=10000'', ''out_time_ms=2500'', ''out_time_ms=7500'', ''progress=end'']
          [] 0 (clip_disk(tmp_path clip \<mapsto> ''new bytes''))
   \<and> \<not> fst (fst (ffmpeg_write_genre_inplace busy_env (Some ''ffmpeg'') clip ''Rock'' None (fresh clip_disk)))
   \<and> \<not> fst (fst (ffmpeg_write_genre_inplace absent_env (Some ''ffmpeg'') clip ''Rock'' None (fresh clip_disk)))
   \<and> disk (snd (snd (ffmpeg_write_genre_inplace absent_env (Some ''ffmpeg'') clip ''Rock'' None
                        (fresh clip_disk)))) (tmp_path clip) = None
   \<and> \<not> fst (fst (ffmpeg_write_genre_inplace failing_env (Some ''ffmpeg'') clip ''Rock'' None (fresh clip_disk)))
   \<and> disk (snd (snd (ffmpeg_write_genre_inplace failing_env (Some ''ffmpeg'') clip ''Rock'' None
                        (fresh clip_disk)))) (tmp_path clip) = None
   \<and> disk (snd (snd (ffmpeg_write_genre_inplace busy_env (Some ''ffmpeg'') clip ''Rock'' None
                        (fresh clip_disk)))) (tmp_path clip) = Some ''new bytes''
   \<and> Unlink (tmp_path clip)
        \<notin> fst ` set (trace (snd (snd (ffmpeg_write_genre_inplace busy_env (Some ''ffmpeg'') clip
                                      ''Rock'' None (fresh clip_disk)))))"
proof -
  have e: "''ffmpeg'' \<noteq> []" by simp
  have p1: "popen absent_env (genre_cmd ''ffmpeg'' clip ''Rock'') clip_disk = SpawnError"
    by (simp add: absent_env_def)
  have r1: "\<not> refused absent_env (Exists (tmp_path clip)) clip_disk"
    "\<not> refused absent_env (Unlink (tmp_path clip)) clip_disk"
    by (simp_all add: absent_env_def)
  have p2: "popen failing_env (genre_cmd ''ffmpeg'' clip ''Rock'') clip_disk
      = Exited [''duration_ms=10000''] [''Invalid data found''] 1 (clip_disk(tmp_path clip \<mapsto> ''partial''))"
    by (simp add: failing_env_def bad_encoder_def)
  have n2: "(1::int) \<noteq> 0" by simp
  have r2: "\<not> refused failing_env (Exists (tmp_path clip)) (clip_disk(tmp_path clip \<mapsto> ''partial''))"
    "\<not> refused failing_env (Unlink (tmp_path clip)) (clip_disk(tmp_path clip \<mapsto> ''partial''))"
    by (simp_all add: failing_env_def)
  have p3: "popen busy_env (genre_cmd ''ffmpeg'' clip ''Rock'') clip_disk
      = Exited [''duration_ms=10000'', ''out_time_ms=2500'', ''out_time_ms=7500'', ''progress=end'']
          [] 0 (clip_disk(tmp_path clip \<mapsto> ''new bytes''))"
    by (rule good_encoder_run)
  have n3: "\<not> fst (fst (ffmpeg_write_genre_inplace busy_env (Some ''ffmpeg'') clip ''Rock'' None
                          (fresh clip_disk)))"
    unfolding busy_run by simp
  have d3: "disk (snd (snd (ffmpeg_write_genre_inplace busy_env (Some ''ffmpeg'') clip ''Rock'' None
                        (fresh clip_disk)))) (tmp_path clip) = Some ''new bytes''"
    unfolding busy_run by simp
  note T = tmp_cleanup [of "''ffmpeg''" absent_env clip "''Rock''" clip_disk None failing_env
      "[''duration_ms=10000'']" "[''Invalid data found'']" 1 "clip_disk(tmp_path clip \<mapsto> ''partial'')"
      busy_env
      "[''duration_ms=10000'', ''out_time_ms=2500'', ''out_time_ms=7500'', ''progress=end'']" "[]"
      "clip_disk(tmp_path clip \<mapsto> ''new bytes'')"]
  note A = T [THEN conjunct1, rule_format, OF e p1 r1]
  note B = T [THEN conjunct2, THEN conjunct1, rule_format, OF e p2 n2 r2]
  note D = T [THEN conjunct2, THEN conjunct2, THEN conjunct2, rule_format, OF e p3]
  from A B D e p1 r1 p2 n2 r2 p3 n3 d3 show ?thesis
    by blast
qed

text \<open>
  C6 as stated fails: when the operating system refuses to rename the original to its
  backup name, the function returns a failure and the temporary file is still on disk.
\<close>

theorem tmp_cleanup_counterexample:
  "fst (ffmpeg_write_genre_inplace busy_env (Some ''ffmpeg'') clip ''Rock'' None (fresh clip_disk))
     = (False, ReplaceFailed)
   \<and> map fst (trace (snd (snd (ffmpeg_write_genre_inplace busy_env (Some ''ffmpeg'') clip ''Rock'' None
                    (fresh clip_disk)))))
     = [Popen (genre_cmd ''ffmpeg'' clip ''Rock''), Exists (backup_path clip),
        Rename clip (backup_path clip)]
   \<and> disk (snd (snd (ffmpeg_write_genre_inplace busy_env (Some ''ffmpeg'') clip ''Rock'' None
                        (fresh clip_disk)))) (tmp_path clip)
     = Some ''new bytes''"
  unfolding busy_run by simp

lemma stale_run:
  "map fst (trace (snd (snd (ffmpeg_write_genre_inplace calm_env (Some ''ffmpeg'') clip ''Rock'' None
                    (fresh stale_disk)))))
     = [Popen (genre_cmd ''ffmpeg'' clip ''Rock''), Exists (backup_path clip),
        Unlink (backup_path clip), Rename clip (backup_path clip), Rename (tmp_path clip) clip,
        Unlink (backup_path clip)]"
proof -
  have p: "popen calm_env (genre_cmd ''ffmpeg'' clip ''Rock'') (disk (fresh stale_disk))
           = Exited [''duration_ms=10000'', ''out_time_ms=2500'', ''out_time_ms=7500'', ''progress=end'']
               [] 0 (stale_disk(tmp_path clip \<mapsto> ''new bytes''))"
    by (simp add: good_encoder_run fresh_def)
  have r: "refused calm_env c f = False" "windows calm_env = False" for c f
    by (simp_all add: calm_env_def)
  have e: "''ffmpeg'' \<noteq> []" by simp
  show ?thesis
    unfolding genre_ok [OF e p]
    by (simp add: replace_original_def sys_exists_def sys_unlink_def sys_rename_def logged_def
        fresh_def Let_def r path_neqs stale_disk_def)
qed

theorem stale_backup_deleted_witness:
  "''ffmpeg'' \<noteq> []
   \<and> popen calm_env (genre_cmd ''ffmpeg'' clip ''Rock'') stale_disk
      = Exited [''duration_ms=10000'', ''out_time_ms=2500'', ''out_time_ms=7500'', ''progress=end'']
          [] 0 (stale_disk(tmp_path clip \<mapsto> ''new bytes''))
   \<and> (stale_disk(tmp_path clip \<mapsto> ''new bytes'')) (backup_path clip) = Some ''stale bytes''
   \<and> (\<exists>s \<in> set (trace (snd (snd (ffmpeg_write_genre_inplace calm_env (Some ''ffmpeg'') clip ''Rock''
                                     None (fresh stale_disk))))). is_rename (fst s))
   \<and> take 3 (trace (snd (snd (ffmpeg_write_genre_inplace calm_env (Some ''ffmpeg'') clip ''Rock'' None
                                (fresh stale_disk)))))
      = [(Popen (genre_cmd ''ffmpeg'' clip ''Rock''), False, stale_disk(tmp_path clip \<mapsto> ''new bytes'')),
         (Exists (backup_path clip), False, stale_disk(tmp_path clip \<mapsto> ''new bytes'')),
         (Unlink (backup_path clip), False,
            (stale_disk(tmp_path clip \<mapsto> ''new bytes''))(backup_path clip := None))]"
proof -
  have e: "''ffmpeg'' \<noteq> []" by simp
  have p: "popen calm_env (genre_cmd ''ffmpeg'' clip ''Rock'') stale_disk
      = Exited [''duration_ms=10000'', ''out_time_ms=2500'', ''out_time_ms=7500'', ''progress=end'']
          [] 0 (stale_disk(tmp_path clip \<mapsto> ''new bytes''))"
    by (rule good_encoder_run)
  have b: "(stale_disk(tmp_path clip \<mapsto> ''new bytes'')) (backup_path clip) = Some ''stale bytes''"
    by (simp add: stale_disk_def path_neqs)
  then have b': "(stale_disk(tmp_path clip \<mapsto> ''new bytes'')) (backup_path clip) \<noteq> None"
    by simp
  have "Rename clip (backup_path clip)
          \<in> set (map fst (trace (snd (snd (ffmpeg_write_genre_inplace calm_env (Some ''ffmpeg'') clip
                                            ''Rock'' None (fresh stale_disk))))))"
    unfolding stale_run by simp
  then have r: "\<exists>s \<in> set (trace (snd (snd (ffmpeg_write_genre_inplace calm_env (Some ''ffmpeg'') clip
                                            ''Rock'' None (fresh stale_disk))))). is_rename (fst s)"
    by (force simp: is_rename_def)
  from stale_backup_deleted [OF e p b' r] e p b r show ?thesis
    by blast
qed

end
